theory Spec2Isabelle
  imports Main "HOL-Library.Sublist"
begin

section \<open>Strings\<close>

text \<open>
  A JavaScript string is modelled as a \<^typ>\<open>string\<close>, one \<^typ>\<open>char\<close> per code unit; the
  model covers ASCII text. The character classes are those of the regular expressions in
  \<^verbatim>\<open>cli/src/react/create.ts\<close>.
\<close>

definition is_upper :: "char \<Rightarrow> bool" where
  "is_upper c = (c \<in> set ''ABCDEFGHIJKLMNOPQRSTUVWXYZ'')"

definition is_lower :: "char \<Rightarrow> bool" where
  "is_lower c = (c \<in> set ''abcdefghijklmnopqrstuvwxyz'')"

definition is_digit :: "char \<Rightarrow> bool" where
  "is_digit c = (c \<in> set ''0123456789'')"

text \<open>The class \<^verbatim>\<open>[a-zA-Z0-9]\<close>.\<close>

definition is_alnum :: "char \<Rightarrow> bool" where
  "is_alnum c = (is_lower c \<or> is_upper c \<or> is_digit c)"

text \<open>
  The class \<^verbatim>\<open>\s\<close>, on ASCII: tab, line feed, vertical tab, form feed, carriage return, space.
  The white space beyond ASCII that the class also has (U+00A0 among it) is outside the text
  modelled.
\<close>

definition is_space :: "char \<Rightarrow> bool" where
  "is_space c = (c \<in> {CHR 0x09, CHR 0x0A, CHR 0x0B, CHR 0x0C, CHR 0x0D, CHR 0x20})"

text \<open>The class \<^verbatim>\<open>[0-9:]\<close>.\<close>

definition is_id_char :: "char \<Rightarrow> bool" where
  "is_id_char c = (is_digit c \<or> c = CHR '':'')"

fun lower_char :: "char \<Rightarrow> char" where
  "lower_char c =
     (if c = CHR ''A'' then CHR ''a'' else if c = CHR ''B'' then CHR ''b''
      else if c = CHR ''C'' then CHR ''c'' else if c = CHR ''D'' then CHR ''d''
      else if c = CHR ''E'' then CHR ''e'' else if c = CHR ''F'' then CHR ''f''
      else if c = CHR ''G'' then CHR ''g'' else if c = CHR ''H'' then CHR ''h''
      else if c = CHR ''I'' then CHR ''i'' else if c = CHR ''J'' then CHR ''j''
      else if c = CHR ''K'' then CHR ''k'' else if c = CHR ''L'' then CHR ''l''
      else if c = CHR ''M'' then CHR ''m'' else if c = CHR ''N'' then CHR ''n''
      else if c = CHR ''O'' then CHR ''o'' else if c = CHR ''P'' then CHR ''p''
      else if c = CHR ''Q'' then CHR ''q'' else if c = CHR ''R'' then CHR ''r''
      else if c = CHR ''S'' then CHR ''s'' else if c = CHR ''T'' then CHR ''t''
      else if c = CHR ''U'' then CHR ''u'' else if c = CHR ''V'' then CHR ''v''
      else if c = CHR ''W'' then CHR ''w'' else if c = CHR ''X'' then CHR ''x''
      else if c = CHR ''Y'' then CHR ''y'' else if c = CHR ''Z'' then CHR ''z''
      else c)"

text \<open>\<^verbatim>\<open>String.prototype.toLowerCase\<close>.\<close>

definition toLowerCase :: "string \<Rightarrow> string" where
  "toLowerCase s = map lower_char s"

text \<open>\<^verbatim>\<open>Array.prototype.join\<close> on strings.\<close>

fun join :: "string \<Rightarrow> string list \<Rightarrow> string" where
  "join sep [] = []"
| "join sep [x] = x"
| "join sep (x # y # ys) = x @ sep @ join sep (y # ys)"

text \<open>
  The decimal text of a number, as a template literal prints an integer of magnitude below
  \<^verbatim>\<open>1e21\<close>; larger numbers and fractions are not modelled.
\<close>

fun string_of_nat :: "nat \<Rightarrow> string" where
  "string_of_nat n =
     (if n < 10 then [''0123456789'' ! n]
      else string_of_nat (n div 10) @ [''0123456789'' ! (n mod 10)])"

declare string_of_nat.simps [simp del]

definition string_of_int :: "int \<Rightarrow> string" where
  "string_of_int i = (if i < 0 then CHR ''-'' # string_of_nat (nat (- i)) else string_of_nat (nat i))"

section \<open>Name normaliser and boolean classifier\<close>

text \<open>
  \<^verbatim>\<open>isBooleanKind(propValue)\<close>: the lower-cased value is one of six words.
\<close>

definition isBooleanKind :: "string \<Rightarrow> bool" where
  "isBooleanKind propValue =
     (let normalized = toLowerCase propValue in
        normalized = ''true'' \<or> normalized = ''false'' \<or> normalized = ''yes'' \<or>
        normalized = ''no'' \<or> normalized = ''on'' \<or> normalized = ''off'')"

text \<open>
  \<^verbatim>\<open>normalizePropName(name) = name.replace(/#[0-9:]*/g, '')\<close>: scanning from the left, every
  \<^verbatim>\<open>#\<close> is deleted together with the longest run of digits and colons after it.
\<close>

function normalizePropName :: "string \<Rightarrow> string" where
  "normalizePropName [] = []"
| "normalizePropName (c # cs) =
     (if c = CHR ''#'' then normalizePropName (dropWhile is_id_char cs)
      else c # normalizePropName cs)"
  by pat_completeness auto
termination
  by (relation "measure length") (auto simp: le_imp_less_Suc length_dropWhile_le)

text \<open>
  The first replacement of \<^verbatim>\<open>generateCodePropName\<close>, \<^verbatim>\<open>.replace(/#[0-9:]+$/g, '')\<close>: a
  \<^verbatim>\<open>#\<close> followed by one or more digits and colons up to the end of the string is deleted.
\<close>

fun stripTrailingNodeId :: "string \<Rightarrow> string" where
  "stripTrailingNodeId [] = []"
| "stripTrailingNodeId (c # cs) =
     (if c = CHR ''#'' \<and> cs \<noteq> [] \<and> list_all is_id_char cs then []
      else c # stripTrailingNodeId cs)"

text \<open>
  \<^verbatim>\<open>generateCodePropName\<close>; lodash's \<^verbatim>\<open>camelCase\<close> is a library function and a parameter here.
\<close>

definition generateCodePropName :: "(string \<Rightarrow> string) \<Rightarrow> string \<Rightarrow> string" where
  "generateCodePropName camel name =
     (let cleanedName = filter (\<lambda>c. is_alnum c \<or> is_space c) (stripTrailingNodeId name)
      in camel cleanedName)"

text \<open>\<^verbatim>\<open>normalizePropValue(name) = name.replace(/[^a-zA-Z0-9]/g, '-').toLowerCase()\<close>.\<close>

definition normalizePropValue :: "string \<Rightarrow> string" where
  "normalizePropValue name = toLowerCase (map (\<lambda>c. if is_alnum c then c else CHR ''-'') name)"

text \<open>
  The test of \<^verbatim>\<open>generateSinglePropMappingFromFigmaProp\<close> on a VARIANT property:
  \<^verbatim>\<open>propDef.variantOptions?.length === 2 && propDef.variantOptions.every(isBooleanKind)\<close>.
  \<^verbatim>\<open>variantOptions\<close> is optional.
\<close>

definition isBooleanVariant :: "string list option \<Rightarrow> bool" where
  "isBooleanVariant variantOptions =
     (case variantOptions of
        None \<Rightarrow> False
      | Some opts \<Rightarrow> length opts = 2 \<and> list_all isBooleanKind opts)"

text \<open>The boolean vocabulary of the specification.\<close>

definition boolean_words :: "string set" where
  "boolean_words = {''true'', ''false'', ''yes'', ''no'', ''on'', ''off''}"

section \<open>Intrinsics and their rendering\<close>

text \<open>
  A JavaScript value, as \<^verbatim>\<open>getSetOfAllPropsReferencedInPropMapping\<close> walks it. An object is the
  list of its own enumerable entries in the order of \<^verbatim>\<open>Object.entries\<close>. Numbers are integers.
\<close>

datatype jsval =
    JUndefined
  | JNull
  | JBoolean bool
  | JNumber int
  | JString string
  | JArray "jsval list"
  | JObject "(string \<times> jsval) list"

text \<open>
  \<^verbatim>\<open>IntrinsicKind\<close> is declared in \<^verbatim>\<open>connect/intrinsics\<close>; the renderer names six members, and
  its comment says that the list is not exhaustive. \<open>K_Other\<close> stands for every other member,
  by name.
\<close>

datatype IntrinsicKind =
    K_String | K_Boolean | K_Enum | K_Instance | K_Children | K_TextContent
  | K_Other string

text \<open>
  \<^verbatim>\<open>Intrinsic\<close> is a union tagged by \<^verbatim>\<open>kind\<close>, with the arguments \<^verbatim>\<open>args\<close> of each kind:
  \<^verbatim>\<open>figmaPropName\<close> and the optional \<^verbatim>\<open>valueMapping\<close>, \<^verbatim>\<open>layers\<close>, \<^verbatim>\<open>layer\<close>. A value of a value
  mapping is a string, a number, a boolean, \<^verbatim>\<open>undefined\<close> or an intrinsic. The arguments of
  an intrinsic of another kind are an arbitrary value.
\<close>

datatype ValueMappingKind =
    VString string
  | VNumber int
  | VBoolean bool
  | VUndefined
  | VIntrinsic Intrinsic
and Intrinsic =
    FigmaString string
  | FigmaBoolean string "(string \<times> ValueMappingKind) list option"
  | FigmaEnum string "(string \<times> ValueMappingKind) list option"
  | FigmaInstance string
  | FigmaChildren "string list"
  | FigmaTextContent string
  | FigmaOther string jsval

fun kind_of :: "Intrinsic \<Rightarrow> IntrinsicKind" where
  "kind_of (FigmaString _) = K_String"
| "kind_of (FigmaBoolean _ _) = K_Boolean"
| "kind_of (FigmaEnum _ _) = K_Enum"
| "kind_of (FigmaInstance _) = K_Instance"
| "kind_of (FigmaChildren _) = K_Children"
| "kind_of (FigmaTextContent _) = K_TextContent"
| "kind_of (FigmaOther k _) = K_Other k"

text \<open>
  What the code throws: the \<^verbatim>\<open>Error\<close> of \<^verbatim>\<open>generateExpressionFromIntrinsic\<close>, the
  \<^verbatim>\<open>TypeError\<close> of \<^verbatim>\<open>Object.entries(null)\<close>, and the failures of the formatter and of the
  file system calls.
\<close>

datatype error =
    UnsupportedIntrinsic IntrinsicKind
  | TypeError
  | FormatterError
  | FileSystemError

definition quoted :: "string \<Rightarrow> string" where
  \<open>quoted s = ''"'' @ s @ ''"''\<close>

text \<open>
  \<^verbatim>\<open>generateExpressionValueMappingKind\<close>, \<^verbatim>\<open>generateExpressionValueMapping\<close> and
  \<^verbatim>\<open>generateExpressionFromIntrinsic\<close>. The entries are rendered from left to right and the
  first throw ends the call. \<open>valueMappingEntries\<close> is the \<^verbatim>\<open>.map\<close> over \<^verbatim>\<open>Object.entries\<close>.
\<close>

fun generateExpressionValueMappingKind :: "ValueMappingKind \<Rightarrow> error + string"
  and valueMappingEntries :: "(string \<times> ValueMappingKind) list \<Rightarrow> error + string list"
  and generateExpressionValueMapping :: "(string \<times> ValueMappingKind) list \<Rightarrow> error + string"
  and generateExpressionFromIntrinsic :: "Intrinsic \<Rightarrow> error + string"
where
  "generateExpressionValueMappingKind (VIntrinsic i) = generateExpressionFromIntrinsic i"
| "generateExpressionValueMappingKind (VString s) = Inr (quoted s)"
| "generateExpressionValueMappingKind (VNumber n) = Inr (string_of_int n)"
| "generateExpressionValueMappingKind (VBoolean b) = Inr (if b then ''true'' else ''false'')"
| "generateExpressionValueMappingKind VUndefined = Inr ''undefined''"
| "valueMappingEntries [] = Inr []"
| "valueMappingEntries ((k, v) # es) =
     (case generateExpressionValueMappingKind v of
        Inl e \<Rightarrow> Inl e
      | Inr t \<Rightarrow>
          (case valueMappingEntries es of
             Inl e \<Rightarrow> Inl e
           | Inr ts \<Rightarrow> Inr ((quoted k @ '': '' @ t) # ts)))"
| "generateExpressionValueMapping es =
     (case valueMappingEntries es of
        Inl e \<Rightarrow> Inl e
      | Inr ts \<Rightarrow> Inr (''{\<newline>  '' @ join '',\<newline>'' ts @ ''\<newline>}''))"
| "generateExpressionFromIntrinsic (FigmaString p) = Inr (''figma.string('' @ quoted p @ '')'')"
| "generateExpressionFromIntrinsic (FigmaBoolean p None) = Inr (''figma.boolean('' @ quoted p @ '')'')"
| "generateExpressionFromIntrinsic (FigmaBoolean p (Some vm)) =
     (case generateExpressionValueMapping vm of
        Inl e \<Rightarrow> Inl e
      | Inr t \<Rightarrow> Inr (''figma.boolean('' @ quoted p @ '', '' @ t @ '')''))"
| "generateExpressionFromIntrinsic (FigmaEnum p None) = Inr (''figma.enum('' @ quoted p @ '')'')"
| "generateExpressionFromIntrinsic (FigmaEnum p (Some vm)) =
     (case generateExpressionValueMapping vm of
        Inl e \<Rightarrow> Inl e
      | Inr t \<Rightarrow> Inr (''figma.enum('' @ quoted p @ '', '' @ t @ '')''))"
| "generateExpressionFromIntrinsic (FigmaInstance p) = Inr (''figma.instance('' @ quoted p @ '')'')"
| "generateExpressionFromIntrinsic (FigmaChildren layers) =
     Inr (''figma.children('' @
       (if length layers > 1 then ''['' @ join '', '' (map quoted layers) @ '']''
        else quoted (case layers of [] \<Rightarrow> ''undefined'' | layer # _ \<Rightarrow> layer)) @ '')'')"
| "generateExpressionFromIntrinsic (FigmaTextContent layer) =
     Inr (''figma.textContent('' @ quoted layer @ '')'')"
| "generateExpressionFromIntrinsic (FigmaOther k args) = Inl (UnsupportedIntrinsic (K_Other k))"

section \<open>Auto-mapping of one property\<close>

text \<open>
  \<^verbatim>\<open>ComponentPropertyDefinition\<close>: the type of the property, with \<open>OTHER_TYPE\<close> for every type
  that \<^verbatim>\<open>generateSinglePropMappingFromFigmaProp\<close> does not name, and the optional
  \<^verbatim>\<open>variantOptions\<close>.
\<close>

datatype PropertyType = BOOLEAN | TEXT | VARIANT | INSTANCE_SWAP | OTHER_TYPE string

record ComponentPropertyDefinition =
  prop_type :: PropertyType
  variantOptions :: "string list option"

text \<open>
  \<^verbatim>\<open>generateSinglePropMappingFromFigmaProp\<close>; \<open>None\<close> is the \<^verbatim>\<open>null\<close> of the last line. With no
  \<^verbatim>\<open>variantOptions\<close> the optional chain of the enum branch is \<^verbatim>\<open>undefined\<close>, printed as such.
\<close>

definition generateSinglePropMappingFromFigmaProp ::
  "(string \<Rightarrow> string) \<Rightarrow> string \<Rightarrow> ComponentPropertyDefinition \<Rightarrow> string option" where
  "generateSinglePropMappingFromFigmaProp camel propName propDef =
     (let codePropName = generateCodePropName camel propName;
          figmaPropName = normalizePropName propName
      in
        if prop_type propDef = BOOLEAN then
          Some (quoted codePropName @ '': figma.boolean('' @ [CHR 0x27] @ figmaPropName @ [CHR 0x27] @ '')'')
        else if prop_type propDef = TEXT then
          Some (quoted codePropName @ '': figma.string('' @ [CHR 0x27] @ figmaPropName @ [CHR 0x27] @ '')'')
        else if prop_type propDef = VARIANT then
          (if isBooleanVariant (variantOptions propDef) then
             Some (quoted codePropName @ '': figma.boolean('' @ [CHR 0x27] @ figmaPropName @ [CHR 0x27] @ '')'')
           else
             Some (quoted codePropName @ '': figma.enum('' @ [CHR 0x27] @ figmaPropName @ [CHR 0x27] @
               '', { \<newline>'' @
               (case variantOptions propDef of
                  None \<Rightarrow> ''undefined''
                | Some opts \<Rightarrow>
                    join '',\<newline>''
                      (map (\<lambda>v. ''  '' @ quoted v @ '': '' @ quoted (normalizePropValue v)) opts)) @
               ''})''))
        else if prop_type propDef = INSTANCE_SWAP then
          Some (quoted codePropName @ '': figma.instance('' @ [CHR 0x27] @ figmaPropName @ [CHR 0x27] @ '')'')
        else None)"

section \<open>Properties referenced by a mapping\<close>

text \<open>\<^verbatim>\<open>typeof v === 'object'\<close>: objects, arrays and \<^verbatim>\<open>null\<close>.\<close>

fun is_object :: "jsval \<Rightarrow> bool" where
  "is_object JNull = True"
| "is_object (JArray _) = True"
| "is_object (JObject _) = True"
| "is_object _ = False"

text \<open>
  \<^verbatim>\<open>getSetOfAllPropsReferencedInPropMapping(obj)\<close>. \<^verbatim>\<open>Object.entries\<close> throws a \<^verbatim>\<open>TypeError\<close> on
  \<^verbatim>\<open>null\<close> and \<^verbatim>\<open>undefined\<close>, gives the elements of an array under their indices, and has
  nothing to visit in a boolean, a number or a string (whose entries are single characters
  under indices). \<open>walkEntries\<close> is the \<^verbatim>\<open>forEach\<close> over the entries of an object and
  \<open>walkElements\<close> the one over the elements of an array, from a given index. The result is
  the \<^verbatim>\<open>Set\<close>, as a set of values; a \<^verbatim>\<open>Set\<close> tells two strings apart by their text.
\<close>

fun getSetOfAllPropsReferencedInPropMapping :: "jsval \<Rightarrow> error + jsval set"
  and walkEntries :: "(string \<times> jsval) list \<Rightarrow> error + jsval set"
  and walkElements :: "nat \<Rightarrow> jsval list \<Rightarrow> error + jsval set"
where
  "getSetOfAllPropsReferencedInPropMapping (JObject es) = walkEntries es"
| "getSetOfAllPropsReferencedInPropMapping (JArray xs) = walkElements 0 xs"
| "getSetOfAllPropsReferencedInPropMapping JNull = Inl TypeError"
| "getSetOfAllPropsReferencedInPropMapping JUndefined = Inl TypeError"
| "getSetOfAllPropsReferencedInPropMapping (JBoolean _) = Inr {}"
| "getSetOfAllPropsReferencedInPropMapping (JNumber _) = Inr {}"
| "getSetOfAllPropsReferencedInPropMapping (JString _) = Inr {}"
| "walkEntries [] = Inr {}"
| "walkEntries ((k, v) # es) =
     (case (if is_object v then getSetOfAllPropsReferencedInPropMapping v else Inr {}) of
        Inl e \<Rightarrow> Inl e
      | Inr inner \<Rightarrow>
          (case walkEntries es of
             Inl e \<Rightarrow> Inl e
           | Inr rest \<Rightarrow> Inr ((if k = ''figmaPropName'' then {v} else {}) \<union> inner \<union> rest)))"
| "walkElements i [] = Inr {}"
| "walkElements i (v # vs) =
     (case (if is_object v then getSetOfAllPropsReferencedInPropMapping v else Inr {}) of
        Inl e \<Rightarrow> Inl e
      | Inr inner \<Rightarrow>
          (case walkElements (Suc i) vs of
             Inl e \<Rightarrow> Inl e
           | Inr rest \<Rightarrow> Inr ((if string_of_nat i = ''figmaPropName'' then {v} else {}) \<union> inner \<union> rest)))"

text \<open>
  The object behind an \<^verbatim>\<open>Intrinsic\<close>: \<^verbatim>\<open>{ kind, args }\<close>. The text of a kind is declared in
  \<^verbatim>\<open>connect/intrinsics\<close> and is a parameter, \<open>kv\<close>.
\<close>

fun vmk_to_js :: "(IntrinsicKind \<Rightarrow> string) \<Rightarrow> ValueMappingKind \<Rightarrow> jsval"
  and valueMapping_to_js :: "(IntrinsicKind \<Rightarrow> string) \<Rightarrow> (string \<times> ValueMappingKind) list \<Rightarrow> (string \<times> jsval) list"
  and intrinsic_to_js :: "(IntrinsicKind \<Rightarrow> string) \<Rightarrow> Intrinsic \<Rightarrow> jsval"
where
  "vmk_to_js kv (VString s) = JString s"
| "vmk_to_js kv (VNumber n) = JNumber n"
| "vmk_to_js kv (VBoolean b) = JBoolean b"
| "vmk_to_js kv VUndefined = JUndefined"
| "vmk_to_js kv (VIntrinsic i) = intrinsic_to_js kv i"
| "valueMapping_to_js kv [] = []"
| "valueMapping_to_js kv ((k, v) # es) = (k, vmk_to_js kv v) # valueMapping_to_js kv es"
| "intrinsic_to_js kv (FigmaString p) =
     JObject [(''kind'', JString (kv K_String)), (''args'', JObject [(''figmaPropName'', JString p)])]"
| "intrinsic_to_js kv (FigmaBoolean p None) =
     JObject [(''kind'', JString (kv K_Boolean)), (''args'', JObject [(''figmaPropName'', JString p)])]"
| "intrinsic_to_js kv (FigmaBoolean p (Some vm)) =
     JObject [(''kind'', JString (kv K_Boolean)),
       (''args'', JObject [(''figmaPropName'', JString p),
          (''valueMapping'', JObject (valueMapping_to_js kv vm))])]"
| "intrinsic_to_js kv (FigmaEnum p None) =
     JObject [(''kind'', JString (kv K_Enum)), (''args'', JObject [(''figmaPropName'', JString p)])]"
| "intrinsic_to_js kv (FigmaEnum p (Some vm)) =
     JObject [(''kind'', JString (kv K_Enum)),
       (''args'', JObject [(''figmaPropName'', JString p),
          (''valueMapping'', JObject (valueMapping_to_js kv vm))])]"
| "intrinsic_to_js kv (FigmaInstance p) =
     JObject [(''kind'', JString (kv K_Instance)), (''args'', JObject [(''figmaPropName'', JString p)])]"
| "intrinsic_to_js kv (FigmaChildren layers) =
     JObject [(''kind'', JString (kv K_Children)), (''args'', JObject [(''layers'', JArray (map JString layers))])]"
| "intrinsic_to_js kv (FigmaTextContent layer) =
     JObject [(''kind'', JString (kv K_TextContent)), (''args'', JObject [(''layer'', JString layer)])]"
| "intrinsic_to_js kv (FigmaOther k args) =
     JObject [(''kind'', JString (kv (K_Other k))), (''args'', args)]"

text \<open>\<^verbatim>\<open>PropMapping\<close>, a record from code prop names to intrinsics, and the object behind it.\<close>

type_synonym PropMapping = "(string \<times> Intrinsic) list"

fun propMapping_to_js :: "(IntrinsicKind \<Rightarrow> string) \<Rightarrow> PropMapping \<Rightarrow> (string \<times> jsval) list" where
  "propMapping_to_js kv [] = []"
| "propMapping_to_js kv ((k, i) # pm) = (k, intrinsic_to_js kv i) # propMapping_to_js kv pm"

section \<open>The two generators\<close>

text \<open>
  \<^verbatim>\<open>CreateRequestPayload['component']\<close>. \<^verbatim>\<open>generateProps\<close> tests whether
  \<^verbatim>\<open>componentPropertyDefinitions\<close> is there, so it is optional; it is given in the order of
  \<^verbatim>\<open>Object.entries\<close>.
\<close>

record Component =
  normalizedName :: string
  figmaNodeUrl :: string
  componentPropertyDefinitions :: "(string \<times> ComponentPropertyDefinition) list option"

text \<open>The first loop of \<^verbatim>\<open>generatePropsFromMapping\<close>: the array \<^verbatim>\<open>mappedProps\<close>.\<close>

fun mappedPropsOf :: "PropMapping \<Rightarrow> error + string list" where
  "mappedPropsOf [] = Inr []"
| "mappedPropsOf ((propName, intrinsic) # rest) =
     (case generateExpressionFromIntrinsic intrinsic of
        Inl e \<Rightarrow> Inl e
      | Inr expr \<Rightarrow>
          (case mappedPropsOf rest of
             Inl e \<Rightarrow> Inl e
           | Inr props \<Rightarrow>
               Inr ((if expr \<noteq> [] then [quoted propName @ '': '' @ expr] else []) @ props)))"

text \<open>
  The second loop of \<^verbatim>\<open>generatePropsFromMapping\<close>: the array \<^verbatim>\<open>unmappedProps\<close>, from the entries
  of \<^verbatim>\<open>componentPropertyDefinitions\<close> and the set \<^verbatim>\<open>usedFigmaPropsSet\<close>.
\<close>

fun unmappedPropsOf ::
  "(string \<Rightarrow> string) \<Rightarrow> jsval set \<Rightarrow> (string \<times> ComponentPropertyDefinition) list \<Rightarrow> string list" where
  "unmappedPropsOf camel usedFigmaPropsSet [] = []"
| "unmappedPropsOf camel usedFigmaPropsSet ((propName, propDef) # rest) =
     (if JString propName \<notin> usedFigmaPropsSet then
        (case generateSinglePropMappingFromFigmaProp camel propName propDef of
           Some propMapping \<Rightarrow> propMapping # unmappedPropsOf camel usedFigmaPropsSet rest
         | None \<Rightarrow> unmappedPropsOf camel usedFigmaPropsSet rest)
      else unmappedPropsOf camel usedFigmaPropsSet rest)"

text \<open>
  The template literal that \<^verbatim>\<open>generatePropsFromMapping\<close> returns, from its two arrays.
\<close>

definition mappingPropsBlock :: "string list \<Rightarrow> string list \<Rightarrow> string" where
  "mappingPropsBlock mappedProps unmappedProps =
     ''{\<newline>  // These props were automatically mapped based on your linked code:\<newline>  '' @
     join '',\<newline>'' mappedProps @ '',\<newline>  '' @
     (if length unmappedProps \<noteq> 0 then
        ''// No matching props could be found for these Figma properties:\<newline>  '' @
        join '',\<newline>'' (map (\<lambda>prop. ''// '' @ prop) unmappedProps)
      else []) @
     ''\<newline>  }''"

text \<open>
  \<^verbatim>\<open>generatePropsFromMapping\<close>. \<^verbatim>\<open>Object.entries\<close> of a missing
  \<^verbatim>\<open>componentPropertyDefinitions\<close> throws.
\<close>

definition generatePropsFromMapping ::
  "(string \<Rightarrow> string) \<Rightarrow> (IntrinsicKind \<Rightarrow> string) \<Rightarrow> Component \<Rightarrow> PropMapping \<Rightarrow> error + string" where
  "generatePropsFromMapping camel kv component propMapping =
     (case mappedPropsOf propMapping of
        Inl e \<Rightarrow> Inl e
      | Inr mappedProps \<Rightarrow>
          (case getSetOfAllPropsReferencedInPropMapping (JObject (propMapping_to_js kv propMapping)) of
             Inl e \<Rightarrow> Inl e
           | Inr usedFigmaPropsSet \<Rightarrow>
               (case componentPropertyDefinitions component of
                  None \<Rightarrow> Inl TypeError
                | Some defs \<Rightarrow>
                    Inr (mappingPropsBlock mappedProps (unmappedPropsOf camel usedFigmaPropsSet defs)))))"

text \<open>The loop of \<^verbatim>\<open>generateProps\<close>: the array \<^verbatim>\<open>props\<close>.\<close>

fun autoPropsOf :: "(string \<Rightarrow> string) \<Rightarrow> (string \<times> ComponentPropertyDefinition) list \<Rightarrow> string list" where
  "autoPropsOf camel [] = []"
| "autoPropsOf camel ((propName, propDef) # rest) =
     (case generateSinglePropMappingFromFigmaProp camel propName propDef of
        Some propMapping \<Rightarrow> propMapping # autoPropsOf camel rest
      | None \<Rightarrow> autoPropsOf camel rest)"

definition generateProps :: "(string \<Rightarrow> string) \<Rightarrow> Component \<Rightarrow> string" where
  "generateProps camel component =
     (case componentPropertyDefinitions component of
        None \<Rightarrow> ''{}''
      | Some defs \<Rightarrow>
          if length defs = 0 then ''{}''
          else ''{\<newline>  '' @ join '',\<newline>  '' (autoPropsOf camel defs) @ ''\<newline>}'')"

section \<open>Import path and file emission\<close>

text \<open>
  The library functions that \<^verbatim>\<open>createReactCodeConnect\<close> calls, as parameters: lodash's
  \<^verbatim>\<open>camelCase\<close>, \<^verbatim>\<open>normalizeComponentName\<close> of \<^verbatim>\<open>connect/create\<close>, \<^verbatim>\<open>getOutFileName\<close> of
  \<^verbatim>\<open>connect/create_common\<close> (on \<^verbatim>\<open>outFile\<close>, \<^verbatim>\<open>outDir\<close>, \<^verbatim>\<open>sourceFilename\<close>, \<^verbatim>\<open>extension\<close>), the text
  of an \<^verbatim>\<open>IntrinsicKind\<close>, Node's \<^verbatim>\<open>path\<close> (\<^verbatim>\<open>sep\<close>, \<^verbatim>\<open>dirname\<close>, \<^verbatim>\<open>relative\<close>, the \<^verbatim>\<open>name\<close> of
  \<^verbatim>\<open>parse\<close>), \<^verbatim>\<open>prettier.format\<close> with the options of the call (\<open>None\<close> when it throws), and
  Node's \<^verbatim>\<open>fs\<close> on a file system state \<open>'fs\<close> (\<open>None\<close> when the call throws).
\<close>

record 'fs Env =
  lodash_camelCase :: "string \<Rightarrow> string"
  normalizeComponentName :: "string \<Rightarrow> string"
  getOutFileName :: "string option \<Rightarrow> string option \<Rightarrow> string \<Rightarrow> string \<Rightarrow> string"
  kind_value :: "IntrinsicKind \<Rightarrow> string"
  path_sep :: char
  path_dirname :: "string \<Rightarrow> string"
  path_relative :: "string \<Rightarrow> string \<Rightarrow> string"
  path_parse_name :: "string \<Rightarrow> string"
  prettier_format :: "string \<Rightarrow> string option"
  fs_existsSync :: "'fs \<Rightarrow> string \<Rightarrow> bool"
  fs_mkdirSync_recursive :: "'fs \<Rightarrow> string \<Rightarrow> 'fs option"
  fs_writeFileSync :: "'fs \<Rightarrow> string \<Rightarrow> string \<Rightarrow> 'fs option"

text \<open>\<^verbatim>\<open>.replace(/\.(jsx|tsx)$/, '')\<close>.\<close>

definition stripScriptExtension :: "string \<Rightarrow> string" where
  "stripScriptExtension s =
     (if suffix ''.jsx'' s \<or> suffix ''.tsx'' s then take (length s - 4) s else s)"

text \<open>\<^verbatim>\<open>formatImportPath\<close>; \<open>sep\<close> is \<^verbatim>\<open>path.sep\<close>.\<close>

definition formatImportPath :: "char \<Rightarrow> string \<Rightarrow> string" where
  "formatImportPath sep systemPath =
     (let replaced = map (\<lambda>c. if c = sep then CHR ''/'' else c) systemPath;
          formattedImportPath = (if \<not> prefix ''.'' replaced then ''./'' @ replaced else replaced)
      in stripScriptExtension formattedImportPath)"

text \<open>An optional string is truthy when it is there and not empty.\<close>

definition truthy :: "string option \<Rightarrow> bool" where
  "truthy s = (case s of None \<Rightarrow> False | Some t \<Rightarrow> t \<noteq> [])"

text \<open>\<^verbatim>\<open>getImportsPath\<close>.\<close>

definition getImportsPath :: "'fs Env \<Rightarrow> string \<Rightarrow> string option \<Rightarrow> string \<Rightarrow> string" where
  "getImportsPath env codeConnectFilePath sourceFilepath' normalizedName' =
     (if \<not> truthy sourceFilepath' then ''./'' @ normalizedName'
      else
        (let codeConnectFolder = path_dirname env codeConnectFilePath;
             pathToComponentFile = path_relative env codeConnectFolder (the sourceFilepath')
         in formatImportPath (path_sep env) pathToComponentFile))"

text \<open>\<^verbatim>\<open>CreateRequestPayload\<close> and \<^verbatim>\<open>CreateResponsePayload\<close>.\<close>

record CreateRequestPayload =
  component :: Component
  destinationFile :: "string option"
  destinationDir :: "string option"
  sourceFilepath :: "string option"
  sourceExport :: "string option"
  propMapping :: "PropMapping option"

datatype MessageLevel = ERROR | INFO

record ResponseMessage =
  message :: string
  level :: MessageLevel

record CreatedFile =
  filePath :: string

record CreateResponsePayload =
  createdFiles :: "CreatedFile list"
  messages :: "ResponseMessage list"

text \<open>The local constants of \<^verbatim>\<open>createReactCodeConnect\<close>, each a function of the payload.\<close>

definition sourceFilenameOf :: "'fs Env \<Rightarrow> CreateRequestPayload \<Rightarrow> string" where
  "sourceFilenameOf env payload =
     (if truthy (sourceFilepath payload)
      then takeWhile (\<lambda>c. c \<noteq> CHR ''.'') (path_parse_name env (the (sourceFilepath payload)))
      else normalizedName (component payload))"

definition filePathOf :: "'fs Env \<Rightarrow> CreateRequestPayload \<Rightarrow> string" where
  "filePathOf env payload =
     getOutFileName env (destinationFile payload) (destinationDir payload)
       (sourceFilenameOf env payload) ''tsx''"

definition importsPathOf :: "'fs Env \<Rightarrow> CreateRequestPayload \<Rightarrow> string" where
  "importsPathOf env payload =
     getImportsPath env (filePathOf env payload) (sourceFilepath payload)
       (normalizedName (component payload))"

definition hasPropMapping :: "CreateRequestPayload \<Rightarrow> bool" where
  "hasPropMapping payload =
     (case propMapping payload of None \<Rightarrow> False | Some pm \<Rightarrow> length pm > 0)"

definition importNameOf :: "'fs Env \<Rightarrow> CreateRequestPayload \<Rightarrow> string" where
  "importNameOf env payload =
     (if truthy (sourceFilepath payload) \<and> truthy (sourceExport payload) then
        (if sourceExport payload = Some ''default''
         then normalizeComponentName env (sourceFilenameOf env payload)
         else the (sourceExport payload))
      else normalizedName (component payload))"

text \<open>The second line of the template: the import of the component.\<close>

definition importStatementOf :: "'fs Env \<Rightarrow> CreateRequestPayload \<Rightarrow> string" where
  "importStatementOf env payload =
     ''import '' @
     (if sourceExport payload = Some ''default'' then importNameOf env payload
      else ''{ '' @ importNameOf env payload @ '' }'') @
     '' from '' @ [CHR 0x27] @ importsPathOf env payload @ [CHR 0x27]"

definition docComment :: "bool \<Rightarrow> string" where
  \<open>docComment mapped =
     (if mapped then
        ''/**\<newline> * -- This file was auto-generated by Code Connect --\<newline> * `props` includes a mapping from your code props to Figma properties.\<newline> * You should check this is correct, and update the `example` function\<newline> * to return the code example you'd like to see in Figma\<newline>*/''
      else
        ''/**\<newline> * -- This file was auto-generated by Code Connect --\<newline> * `props` includes a mapping from Figma properties and variants to\<newline> * suggested values. You should update this to match the props of your\<newline> * code component, and update the `example` function to return the\<newline> * code example you'd like to see in Figma\<newline>*/'')\<close>

text \<open>The props of the template: one generator or the other.\<close>

definition propsOf :: "'fs Env \<Rightarrow> CreateRequestPayload \<Rightarrow> error + string" where
  "propsOf env payload =
     (if hasPropMapping payload
      then generatePropsFromMapping (lodash_camelCase env) (kind_value env) (component payload)
             (the (propMapping payload))
      else Inr (generateProps (lodash_camelCase env) (component payload)))"

text \<open>The template literal \<^verbatim>\<open>codeConnect\<close>.\<close>

definition codeConnectOf :: "'fs Env \<Rightarrow> CreateRequestPayload \<Rightarrow> error + string" where
  \<open>codeConnectOf env payload =
     (case propsOf env payload of
        Inl e \<Rightarrow> Inl e
      | Inr props \<Rightarrow>
          Inr (''\<newline>import React from 'react'\<newline>'' @ importStatementOf env payload @
               ''\<newline>import figma from '@figma/code-connect'\<newline>\<newline>'' @
               docComment (hasPropMapping payload) @
               ''\<newline>\<newline>figma.connect('' @ importNameOf env payload @ '', "'' @
               figmaNodeUrl (component payload) @ ''", {\<newline>  props: '' @ props @
               '',\<newline>  example: (props) => <'' @ importNameOf env payload @ '' />\<newline>})\<newline>''))\<close>

text \<open>The text after \<^verbatim>\<open>prettier.format\<close>.\<close>

definition formattedOf :: "'fs Env \<Rightarrow> CreateRequestPayload \<Rightarrow> error + string" where
  "formattedOf env payload =
     (case codeConnectOf env payload of
        Inl e \<Rightarrow> Inl e
      | Inr codeConnect \<Rightarrow>
          (case prettier_format env codeConnect of
             None \<Rightarrow> Inl FormatterError
           | Some formatted \<Rightarrow> Inr formatted))"

text \<open>
  \<^verbatim>\<open>createReactCodeConnect\<close>, on a file system state: the state after the call, and the
  response or what the call throws.
\<close>

definition createReactCodeConnect ::
  "'fs Env \<Rightarrow> 'fs \<Rightarrow> CreateRequestPayload \<Rightarrow> 'fs \<times> (error + CreateResponsePayload)" where
  "createReactCodeConnect env fs payload =
     (let filePath' = filePathOf env payload in
        case formattedOf env payload of
          Inl e \<Rightarrow> (fs, Inl e)
        | Inr formatted \<Rightarrow>
            if fs_existsSync env fs filePath' then
              (fs, Inr \<lparr>createdFiles = [],
                        messages = [\<lparr>message = ''File '' @ filePath' @ '' already exists, skipping creation'',
                                     level = ERROR\<rparr>]\<rparr>)
            else
              (case fs_mkdirSync_recursive env fs (path_dirname env filePath') of
                 None \<Rightarrow> (fs, Inl FileSystemError)
               | Some fs1 \<Rightarrow>
                   (case fs_writeFileSync env fs1 filePath' formatted of
                      None \<Rightarrow> (fs1, Inl FileSystemError)
                    | Some fs2 \<Rightarrow>
                        (fs2, Inr \<lparr>createdFiles = [\<lparr>filePath = filePath'\<rparr>], messages = []\<rparr>))))"

section \<open>Notions of the specification\<close>

text \<open>The property types for which a declaration is derived.\<close>

definition supported_type :: "PropertyType \<Rightarrow> bool" where
  "supported_type t = (t = BOOLEAN \<or> t = TEXT \<or> t = VARIANT \<or> t = INSTANCE_SWAP)"

text \<open>
  A declaration that binds the code name of a property to a boolean, string or instance
  binding on its normalised name.
\<close>

definition simple_binding :: "(string \<Rightarrow> string) \<Rightarrow> string \<Rightarrow> string \<Rightarrow> string" where
  "simple_binding camel binding propName =
     quoted (generateCodePropName camel propName) @ '': figma.'' @ binding @ ''('' @ [CHR 0x27] @
     normalizePropName propName @ [CHR 0x27] @ '')''"

text \<open>
  The value slug in the words of the specification: every character outside
  \<^verbatim>\<open>[A-Za-z0-9]\<close> becomes \<^verbatim>\<open>-\<close>, every other one is lower-cased.
\<close>

definition value_slug :: "string \<Rightarrow> string" where
  "value_slug v = map (\<lambda>c. if is_alnum c then lower_char c else CHR ''-'') v"

text \<open>An enum declaration that maps every option to its slug.\<close>

definition enum_binding :: "(string \<Rightarrow> string) \<Rightarrow> string \<Rightarrow> string list \<Rightarrow> string" where
  "enum_binding camel propName opts =
     quoted (generateCodePropName camel propName) @ '': figma.enum('' @ [CHR 0x27] @
     normalizePropName propName @ [CHR 0x27] @ '', { \<newline>'' @
     join '',\<newline>'' (map (\<lambda>v. ''  '' @ quoted v @ '': '' @ quoted (value_slug v)) opts) @ ''})''"

text \<open>
  The used design properties in the words of the specification: \<open>v\<close> is the value of an
  attribute named \<^verbatim>\<open>figmaPropName\<close> at some depth of the tree \<open>obj\<close>. The indices of an array
  are not so named.
\<close>

inductive figmaPropName_value :: "jsval \<Rightarrow> jsval \<Rightarrow> bool" where
  here: "(''figmaPropName'', v) \<in> set es \<Longrightarrow> figmaPropName_value (JObject es) v"
| in_object: "(k, c) \<in> set es \<Longrightarrow> figmaPropName_value c v \<Longrightarrow> figmaPropName_value (JObject es) v"
| in_array: "c \<in> set xs \<Longrightarrow> figmaPropName_value c v \<Longrightarrow> figmaPropName_value (JArray xs) v"

code_pred figmaPropName_value .

text \<open>A tree with no \<^verbatim>\<open>null\<close> in it: the trees on which \<^verbatim>\<open>Object.entries\<close> never throws.\<close>

fun null_free :: "jsval \<Rightarrow> bool"
  and null_free_entries :: "(string \<times> jsval) list \<Rightarrow> bool"
  and null_free_elements :: "jsval list \<Rightarrow> bool"
where
  "null_free JNull = False"
| "null_free (JObject es) = null_free_entries es"
| "null_free (JArray xs) = null_free_elements xs"
| "null_free JUndefined = True"
| "null_free (JBoolean _) = True"
| "null_free (JNumber _) = True"
| "null_free (JString _) = True"
| "null_free_entries [] = True"
| "null_free_entries ((k, v) # es) = (null_free v \<and> null_free_entries es)"
| "null_free_elements [] = True"
| "null_free_elements (v # vs) = (null_free v \<and> null_free_elements vs)"

section \<open>A sample environment\<close>

text \<open>
  One environment on which the definitions are evaluated: paths with \<^verbatim>\<open>/\<close>, a formatter that
  returns its input, lower-casing in place of \<^verbatim>\<open>camelCase\<close>, and a file system that is a list of
  directories and a list of files with their contents. \<open>sample_relative\<close> is
  \<^verbatim>\<open>path.relative\<close> only where the target lies under the directory or beside it, one level up,
  as in the evaluations below. The theorems on \<^verbatim>\<open>createReactCodeConnect\<close> hold in every
  environment.
\<close>

definition sample_dirname :: "string \<Rightarrow> string" where
  "sample_dirname p =
     (let d = rev (drop 1 (dropWhile (\<lambda>c. c \<noteq> CHR ''/'') (rev p))) in if d = [] then ''.'' else d)"

definition sample_relative :: "string \<Rightarrow> string \<Rightarrow> string" where
  "sample_relative from to =
     (if prefix (from @ ''/'') to then drop (length from + 1) to else ''../'' @ to)"

definition sample_parse_name :: "string \<Rightarrow> string" where
  "sample_parse_name p =
     (let base = rev (takeWhile (\<lambda>c. c \<noteq> CHR ''/'') (rev p)) in
        if CHR ''.'' \<in> set base then rev (drop 1 (dropWhile (\<lambda>c. c \<noteq> CHR ''.'') (rev base))) else base)"

definition sample_getOutFileName :: "string option \<Rightarrow> string option \<Rightarrow> string \<Rightarrow> string \<Rightarrow> string" where
  "sample_getOutFileName outFile outDir sourceFilename extension =
     (case outFile of
        Some f \<Rightarrow> f
      | None \<Rightarrow>
          (case outDir of Some d \<Rightarrow> d @ ''/'' | None \<Rightarrow> []) @ sourceFilename @ ''.figma.'' @ extension)"

fun sample_kind_value :: "IntrinsicKind \<Rightarrow> string" where
  "sample_kind_value K_String = ''string''"
| "sample_kind_value K_Boolean = ''boolean''"
| "sample_kind_value K_Enum = ''enum''"
| "sample_kind_value K_Instance = ''instance''"
| "sample_kind_value K_Children = ''children''"
| "sample_kind_value K_TextContent = ''text-content''"
| "sample_kind_value (K_Other k) = k"

type_synonym sample_fs = "string list \<times> (string \<times> string) list"

definition sample_env :: "sample_fs Env" where
  "sample_env =
     \<lparr>lodash_camelCase = toLowerCase,
      normalizeComponentName = (\<lambda>s. s),
      getOutFileName = sample_getOutFileName,
      kind_value = sample_kind_value,
      path_sep = CHR ''/'',
      path_dirname = sample_dirname,
      path_relative = sample_relative,
      path_parse_name = sample_parse_name,
      prettier_format = Some,
      fs_existsSync = (\<lambda>(dirs, files) p. p \<in> set dirs \<or> p \<in> set (map fst files)),
      fs_mkdirSync_recursive = (\<lambda>(dirs, files) d. Some (d # dirs, files)),
      fs_writeFileSync = (\<lambda>(dirs, files) p content. Some (dirs, (p, content) # files))\<rparr>"

definition button_component :: Component where
  "button_component =
     \<lparr>normalizedName = ''MyButton'', figmaNodeUrl = ''https://figma.com/design/abc?node-id=1-2'',
      componentPropertyDefinitions = Some
        [(''Disabled'', \<lparr>prop_type = BOOLEAN, variantOptions = None\<rparr>),
         (''Size#12:3'', \<lparr>prop_type = VARIANT, variantOptions = Some [''Small'', ''Extra Large'']\<rparr>),
         (''Icon'', \<lparr>prop_type = INSTANCE_SWAP, variantOptions = None\<rparr>),
         (''Count'', \<lparr>prop_type = OTHER_TYPE ''NUMBER'', variantOptions = None\<rparr>)]\<rparr>"

definition button_payload :: CreateRequestPayload where
  "button_payload =
     \<lparr>component = button_component, destinationFile = None, destinationDir = Some ''out'',
      sourceFilepath = None, sourceExport = None, propMapping = None\<rparr>"

section \<open>Boolean-variant classifier\<close>

lemma isBooleanKind_iff: "isBooleanKind v \<longleftrightarrow> toLowerCase v \<in> boolean_words"
  by (auto simp: isBooleanKind_def boolean_words_def Let_def)

text \<open>
  C3. The classifier answers true exactly for an options sequence of two entries, each of
  which is, after lower-casing, one of the words true, false, yes, no, on, off; a missing
  sequence, a sequence of another length, and a two-element sequence with a word outside
  the vocabulary all give false.
\<close>

theorem isBooleanVariant_iff:
  "isBooleanVariant opts \<longleftrightarrow>
     (\<exists>a b. opts = Some [a, b] \<and> toLowerCase a \<in> boolean_words \<and> toLowerCase b \<in> boolean_words)"
proof (cases opts)
  case None
  then show ?thesis by (simp add: isBooleanVariant_def)
next
  case (Some xs)
  have len2: "length xs = 2 \<longleftrightarrow> (\<exists>a b. xs = [a, b])"
    by (cases xs; cases "tl xs"; cases "tl (tl xs)") auto
  show ?thesis
    unfolding Some isBooleanVariant_def option.case len2
    by (auto simp: isBooleanKind_iff)
qed

theorem isBooleanVariant_iff_witness:
  "isBooleanVariant (Some [''Yes'', ''NO'']) \<and> \<not> isBooleanVariant (Some [''Small'', ''Large''])
   \<and> \<not> isBooleanVariant (Some [''on'', ''off'', ''true'']) \<and> \<not> isBooleanVariant (Some [''true''])
   \<and> \<not> isBooleanVariant None"
  using isBooleanVariant_iff [of "Some [''Yes'', ''NO'']"]
    isBooleanVariant_iff [of "Some [''Small'', ''Large'']"]
    isBooleanVariant_iff [of "Some [''on'', ''off'', ''true'']"]
    isBooleanVariant_iff [of "Some [''true'']"]
    isBooleanVariant_iff [of None]
  by (simp add: boolean_words_def toLowerCase_def)

section \<open>Property-name normaliser\<close>

lemma normalizePropName_no_hash: "CHR ''#'' \<notin> set name \<Longrightarrow> normalizePropName name = name"
  by (induction name) auto

lemma normalizePropName_append:
  "CHR ''#'' \<notin> set pre \<Longrightarrow> normalizePropName (pre @ rest) = pre @ normalizePropName rest"
  by (induction pre) auto

lemma normalizePropName_trailing:
  assumes "CHR ''#'' \<notin> set pre" and "list_all is_id_char suf"
  shows "normalizePropName (pre @ ''#'' @ suf) = pre"
proof -
  from assms(2) have "dropWhile is_id_char suf = []"
    by (simp add: list_all_iff)
  then have "normalizePropName (''#'' @ suf) = []"
    by (simp del: dropWhile_eq_Nil_conv)
  with normalizePropName_append [OF assms(1), of "''#'' @ suf"] show ?thesis
    by simp
qed

text \<open>
  C2. A property name with a \<^verbatim>\<open>#\<close> that starts no node-id annotation, such as \<^verbatim>\<open>Item#One\<close>, is
  not left as it is: the \<^verbatim>\<open>#\<close> is deleted. A name with an annotation in the middle and one at
  the end loses both. \<^verbatim>\<open>generateCodePropName\<close> deletes the annotation at the end only.
\<close>

theorem normalizePropName_inner_hash:
  "normalizePropName ''Item#One'' = ''ItemOne'' \<and>
   normalizePropName ''Item #1#12:3'' = ''Item '' \<and>
   stripTrailingNodeId ''Item#One'' = ''Item#One'' \<and>
   stripTrailingNodeId ''Item #1#12:3'' = ''Item #1''"
  by (simp add: is_id_char_def is_digit_def)

section \<open>Rendering of intrinsics\<close>

lemma generateExpressionValueMapping_shape:
  "generateExpressionValueMapping vm = Inr t \<Longrightarrow> \<exists>body. t = ''{\<newline>  '' @ body @ ''\<newline>}''"
  by (auto split: sum.splits)

text \<open>
  C4, as the code has it. A Boolean or Enum intrinsic with no \<^verbatim>\<open>valueMapping\<close> is rendered with
  the quoted property name as its only argument. With a \<^verbatim>\<open>valueMapping\<close>, also one of no
  entries, the rendering fails when the rendering of the mapping fails, and otherwise has
  the object literal of the mapping as its second argument.
\<close>

theorem valueMapping_argument_iff_present:
  "generateExpressionFromIntrinsic (FigmaBoolean p None) = Inr (''figma.boolean('' @ quoted p @ '')'') \<and>
   generateExpressionFromIntrinsic (FigmaEnum p None) = Inr (''figma.enum('' @ quoted p @ '')'') \<and>
   (\<forall>e. generateExpressionValueMapping vm = Inl e \<longrightarrow>
      generateExpressionFromIntrinsic (FigmaBoolean p (Some vm)) = Inl e \<and>
      generateExpressionFromIntrinsic (FigmaEnum p (Some vm)) = Inl e) \<and>
   (\<forall>t. generateExpressionValueMapping vm = Inr t \<longrightarrow>
      (\<exists>body. t = ''{\<newline>  '' @ body @ ''\<newline>}'') \<and>
      generateExpressionFromIntrinsic (FigmaBoolean p (Some vm)) =
        Inr (''figma.boolean('' @ quoted p @ '', '' @ t @ '')'') \<and>
      generateExpressionFromIntrinsic (FigmaEnum p (Some vm)) =
        Inr (''figma.enum('' @ quoted p @ '', '' @ t @ '')''))"
  using generateExpressionValueMapping_shape [of vm] by simp

theorem valueMapping_argument_iff_present_witness:
  \<open>generateExpressionFromIntrinsic (FigmaBoolean ''Disabled'' (Some [(''true'', VString ''yes''), (''false'', VUndefined)])) =
     Inr ''figma.boolean("Disabled", {\<newline>  "true": "yes",\<newline>"false": undefined\<newline>})'' \<and>
   generateExpressionFromIntrinsic (FigmaEnum ''Size'' (Some [(''S'', VIntrinsic (FigmaOther ''className'' JNull))])) =
     Inl (UnsupportedIntrinsic (K_Other ''className''))\<close>
  using valueMapping_argument_iff_present
    [of "''Disabled''" "[(''true'', VString ''yes''), (''false'', VUndefined)]"]
    valueMapping_argument_iff_present
    [of "''Size''" "[(''S'', VIntrinsic (FigmaOther ''className'' JNull))]"]
  by (simp add: quoted_def)

text \<open>
  The claim of C4 fails for a \<^verbatim>\<open>valueMapping\<close> of no entries: the empty object is truthy, and
  the rendering has the empty object literal as a second argument.
\<close>

theorem empty_valueMapping_rendered:
  \<open>generateExpressionFromIntrinsic (FigmaBoolean ''Disabled'' (Some [])) =
     Inr ''figma.boolean("Disabled", {\<newline>  \<newline>})'' \<and>
   generateExpressionFromIntrinsic (FigmaBoolean ''Disabled'' (Some [])) \<noteq>
     Inr ''figma.boolean("Disabled")''\<close>
  by (simp add: quoted_def)

lemmas sample_defs =
  sample_env_def button_payload_def button_component_def sample_getOutFileName_def
  sample_dirname_def sample_relative_def sample_parse_name_def

lemmas char_class_defs =
  is_id_char_def is_digit_def is_alnum_def is_lower_def is_upper_def is_space_def

lemmas emission_defs =
  createReactCodeConnect_def formattedOf_def codeConnectOf_def propsOf_def hasPropMapping_def
  filePathOf_def sourceFilenameOf_def truthy_def importsPathOf_def getImportsPath_def
  importNameOf_def importStatementOf_def

section \<open>Auto-mapping generator\<close>

lemma value_slug_eq: "normalizePropValue v = value_slug v"
  by (simp add: normalizePropValue_def value_slug_def toLowerCase_def)

lemma gen_Some_iff:
  "generateSinglePropMappingFromFigmaProp camel n d \<noteq> None \<longleftrightarrow> supported_type (prop_type d)"
  by (simp add: generateSinglePropMappingFromFigmaProp_def Let_def supported_type_def)

lemma autoPropsOf_eq:
  "autoPropsOf camel defs =
     map (\<lambda>(n, d). the (generateSinglePropMappingFromFigmaProp camel n d))
       (filter (\<lambda>(n, d). supported_type (prop_type d)) defs)"
proof (induction defs)
  case Nil
  show ?case by simp
next
  case (Cons nd defs)
  obtain n d where nd: "nd = (n, d)" by (cases nd)
  show ?case
  proof (cases "generateSinglePropMappingFromFigmaProp camel n d")
    case None
    with gen_Some_iff [of camel n d] Cons nd show ?thesis by simp
  next
    case (Some decl)
    with gen_Some_iff [of camel n d] Cons nd show ?thesis by simp
  qed
qed

lemma unmappedPropsOf_eq:
  "unmappedPropsOf camel used defs = autoPropsOf camel (filter (\<lambda>(n, d). JString n \<notin> used) defs)"
  by (induction defs) (auto split: option.splits)


lemma gen_cases:
  "prop_type d = BOOLEAN \<Longrightarrow>
     generateSinglePropMappingFromFigmaProp camel n d = Some (simple_binding camel ''boolean'' n)"
  "prop_type d = TEXT \<Longrightarrow>
     generateSinglePropMappingFromFigmaProp camel n d = Some (simple_binding camel ''string'' n)"
  "prop_type d = VARIANT \<Longrightarrow> isBooleanVariant (variantOptions d) \<Longrightarrow>
     generateSinglePropMappingFromFigmaProp camel n d = Some (simple_binding camel ''boolean'' n)"
  "prop_type d = VARIANT \<Longrightarrow> \<not> isBooleanVariant (variantOptions d) \<Longrightarrow> variantOptions d = Some opts \<Longrightarrow>
     generateSinglePropMappingFromFigmaProp camel n d = Some (enum_binding camel n opts)"
  "prop_type d = INSTANCE_SWAP \<Longrightarrow>
     generateSinglePropMappingFromFigmaProp camel n d = Some (simple_binding camel ''instance'' n)"
  "prop_type d = OTHER_TYPE t \<Longrightarrow> generateSinglePropMappingFromFigmaProp camel n d = None"
  by (simp_all add: generateSinglePropMappingFromFigmaProp_def Let_def simple_binding_def
      enum_binding_def value_slug_eq)

text \<open>
  C6. The auto-mapping generator derives one declaration for every property of a supported
  type and none for the others, in the order of the properties: with N properties of
  supported types and M of other types there are N declarations, and N + M properties.
  BOOLEAN gives a boolean binding, TEXT a string binding, a VARIANT with two boolean words
  as options a boolean binding, any other VARIANT with options an enum binding that maps
  every option to its slug (lower-cased, every character that is not alphanumeric replaced
  by \<^verbatim>\<open>-\<close>), INSTANCE_SWAP an instance binding. \<^verbatim>\<open>generateProps\<close> joins these declarations.
\<close>

theorem auto_mapping_declarations:
  "length (autoPropsOf camel defs) = length (filter (\<lambda>(n, d). supported_type (prop_type d)) defs) \<and>
   length (autoPropsOf camel defs) + length (filter (\<lambda>(n, d). \<not> supported_type (prop_type d)) defs) =
     length defs \<and>
   autoPropsOf camel defs =
     map (\<lambda>(n, d). the (generateSinglePropMappingFromFigmaProp camel n d))
       (filter (\<lambda>(n, d). supported_type (prop_type d)) defs) \<and>
   (\<forall>n d. (n, d) \<in> set defs \<longrightarrow>
      (prop_type d = BOOLEAN \<longrightarrow>
         generateSinglePropMappingFromFigmaProp camel n d = Some (simple_binding camel ''boolean'' n)) \<and>
      (prop_type d = TEXT \<longrightarrow>
         generateSinglePropMappingFromFigmaProp camel n d = Some (simple_binding camel ''string'' n)) \<and>
      (prop_type d = VARIANT \<and> isBooleanVariant (variantOptions d) \<longrightarrow>
         generateSinglePropMappingFromFigmaProp camel n d = Some (simple_binding camel ''boolean'' n)) \<and>
      (\<forall>opts. prop_type d = VARIANT \<and> \<not> isBooleanVariant (variantOptions d) \<and> variantOptions d = Some opts \<longrightarrow>
         generateSinglePropMappingFromFigmaProp camel n d = Some (enum_binding camel n opts)) \<and>
      (prop_type d = INSTANCE_SWAP \<longrightarrow>
         generateSinglePropMappingFromFigmaProp camel n d = Some (simple_binding camel ''instance'' n)) \<and>
      (\<not> supported_type (prop_type d) \<longrightarrow> generateSinglePropMappingFromFigmaProp camel n d = None)) \<and>
   (defs \<noteq> [] \<longrightarrow>
      generateProps camel \<lparr>normalizedName = nm, figmaNodeUrl = url, componentPropertyDefinitions = Some defs\<rparr> =
        ''{\<newline>  '' @ join '',\<newline>  '' (autoPropsOf camel defs) @ ''\<newline>}'')"
proof -
  have len: "length (autoPropsOf camel defs) =
      length (filter (\<lambda>(n, d). supported_type (prop_type d)) defs)"
    by (simp add: autoPropsOf_eq)
  have "length (filter (\<lambda>(n, d). supported_type (prop_type d)) defs) +
      length (filter (\<lambda>(n, d). \<not> supported_type (prop_type d)) defs) = length defs"
    using sum_length_filter_compl [of "\<lambda>(n, d). supported_type (prop_type d)" defs]
    by (simp add: case_prod_unfold)
  with len have total: "length (autoPropsOf camel defs) +
      length (filter (\<lambda>(n, d). \<not> supported_type (prop_type d)) defs) = length defs"
    by simp
  have none: "\<And>n d. \<not> supported_type (prop_type d) \<Longrightarrow>
      generateSinglePropMappingFromFigmaProp camel n d = None"
    using gen_Some_iff by blast
  have props: "defs \<noteq> [] \<longrightarrow>
      generateProps camel \<lparr>normalizedName = nm, figmaNodeUrl = url, componentPropertyDefinitions = Some defs\<rparr> =
        ''{\<newline>  '' @ join '',\<newline>  '' (autoPropsOf camel defs) @ ''\<newline>}''"
    by (simp add: generateProps_def)
  show ?thesis
    apply (intro conjI)
        apply (rule len)
       apply (rule total)
      apply (rule autoPropsOf_eq)
     apply (intro allI impI conjI)
          apply (simp add: gen_cases(1))
         apply (simp add: gen_cases(2))
        apply (simp add: gen_cases(3))
       apply (elim conjE, erule (2) gen_cases(4))
      apply (simp add: gen_cases(5))
     apply (simp add: none)
    apply (rule props)
    done
qed

theorem auto_mapping_declarations_witness:
  \<open>autoPropsOf toLowerCase
     [(''Disabled'', \<lparr>prop_type = BOOLEAN, variantOptions = None\<rparr>),
      (''Size#12:3'', \<lparr>prop_type = VARIANT, variantOptions = Some [''Small'', ''Extra Large'']\<rparr>),
      (''Icon'', \<lparr>prop_type = INSTANCE_SWAP, variantOptions = None\<rparr>),
      (''Count'', \<lparr>prop_type = OTHER_TYPE ''NUMBER'', variantOptions = None\<rparr>)] =
     [''"disabled": figma.boolean('Disabled')'',
      ''"size": figma.enum('Size', { \<newline>  "Small": "small",\<newline>  "Extra Large": "extra-large"})'',
      ''"icon": figma.instance('Icon')'']\<close>
  using auto_mapping_declarations [of toLowerCase
     "[(''Disabled'', \<lparr>prop_type = BOOLEAN, variantOptions = None\<rparr>),
      (''Size#12:3'', \<lparr>prop_type = VARIANT, variantOptions = Some [''Small'', ''Extra Large'']\<rparr>),
      (''Icon'', \<lparr>prop_type = INSTANCE_SWAP, variantOptions = None\<rparr>),
      (''Count'', \<lparr>prop_type = OTHER_TYPE ''NUMBER'', variantOptions = None\<rparr>)]"]
  by (simp add: supported_type_def simple_binding_def enum_binding_def value_slug_def quoted_def
      generateCodePropName_def toLowerCase_def isBooleanVariant_def isBooleanKind_def
      generateSinglePropMappingFromFigmaProp_def char_class_defs)

section \<open>Unsupported intrinsic kinds\<close>

lemma kind_of_other:
  "kind_of i \<notin> {K_String, K_Boolean, K_Enum, K_Instance, K_Children, K_TextContent} \<Longrightarrow>
     \<exists>k args. i = FigmaOther k args"
  by (cases i) auto

lemma gen_binding_kind:
  assumes "generateSinglePropMappingFromFigmaProp camel n d = Some decl"
  shows "\<exists>b \<in> {''boolean'', ''string'', ''enum'', ''instance''}.
           prefix (quoted (generateCodePropName camel n) @ '': figma.'' @ b @ ''('') decl"
proof -
  have cases: "prop_type d = BOOLEAN \<or> prop_type d = TEXT \<or> prop_type d = INSTANCE_SWAP \<or>
      (prop_type d = VARIANT \<and> isBooleanVariant (variantOptions d)) \<or>
      (prop_type d = VARIANT \<and> \<not> isBooleanVariant (variantOptions d))"
    using assms gen_Some_iff [of camel n d] by (auto simp: supported_type_def)
  then show ?thesis
    using assms
    by (elim disjE conjE)
      (auto simp: generateSinglePropMappingFromFigmaProp_def Let_def prefix_def)
qed

text \<open>
  C5. An intrinsic whose kind is none of String, Boolean, Enum, Instance, Children and
  TextContent is not rendered: the renderer throws, with the kind. The auto-mapping generator
  never reaches that throw: it calls no renderer, every declaration it derives is a boolean,
  string, enum or instance binding written by itself, and a call of
  \<^verbatim>\<open>createReactCodeConnect\<close> without a prop mapping takes its props from \<^verbatim>\<open>generateProps\<close> and
  never ends in the error of an unsupported kind.
\<close>

theorem unsupported_kind_fatal:
  "(kind_of i \<notin> {K_String, K_Boolean, K_Enum, K_Instance, K_Children, K_TextContent} \<longrightarrow>
      generateExpressionFromIntrinsic i = Inl (UnsupportedIntrinsic (kind_of i))) \<and>
   (\<forall>decl. generateSinglePropMappingFromFigmaProp camel n d = Some decl \<longrightarrow>
      (\<exists>b \<in> {''boolean'', ''string'', ''enum'', ''instance''}.
         prefix (quoted (generateCodePropName camel n) @ '': figma.'' @ b @ ''('') decl)) \<and>
   (\<not> hasPropMapping payload \<longrightarrow>
      propsOf env payload = Inr (generateProps (lodash_camelCase env) (component payload)) \<and>
      (\<forall>k. snd (createReactCodeConnect env fs payload) \<noteq> Inl (UnsupportedIntrinsic k)))"
proof (intro conjI allI impI)
  assume "kind_of i \<notin> {K_String, K_Boolean, K_Enum, K_Instance, K_Children, K_TextContent}"
  from kind_of_other [OF this] show "generateExpressionFromIntrinsic i = Inl (UnsupportedIntrinsic (kind_of i))"
    by auto
next
  fix decl assume "generateSinglePropMappingFromFigmaProp camel n d = Some decl"
  then show "\<exists>b \<in> {''boolean'', ''string'', ''enum'', ''instance''}.
      prefix (quoted (generateCodePropName camel n) @ '': figma.'' @ b @ ''('') decl"
    by (rule gen_binding_kind)
next
  assume "\<not> hasPropMapping payload"
  then show "propsOf env payload = Inr (generateProps (lodash_camelCase env) (component payload))"
    by (simp add: propsOf_def)
next
  fix k assume no: "\<not> hasPropMapping payload"
  then have "\<exists>t. codeConnectOf env payload = Inr t"
    by (simp add: codeConnectOf_def propsOf_def)
  then obtain t where t: "codeConnectOf env payload = Inr t" ..
  have f: "formattedOf env payload = Inl FormatterError \<or> (\<exists>u. formattedOf env payload = Inr u)"
    by (simp add: formattedOf_def t split: option.splits)
  show "snd (createReactCodeConnect env fs payload) \<noteq> Inl (UnsupportedIntrinsic k)"
    using f by (auto simp: createReactCodeConnect_def Let_def split: option.splits if_splits)
qed

theorem unsupported_kind_fatal_witness:
  "generateExpressionFromIntrinsic (FigmaOther ''nested-props'' (JObject [])) =
     Inl (UnsupportedIntrinsic (K_Other ''nested-props'')) \<and>
   \<not> hasPropMapping button_payload \<and>
   snd (createReactCodeConnect sample_env ([], []) button_payload) \<noteq>
     Inl (UnsupportedIntrinsic (K_Other ''nested-props''))"
  using unsupported_kind_fatal [of "FigmaOther ''nested-props'' (JObject [])" toLowerCase "''Disabled''"
      "\<lparr>prop_type = BOOLEAN, variantOptions = None\<rparr>" button_payload sample_env "([], [])"]
  by (simp add: hasPropMapping_def button_payload_def)

section \<open>Properties referenced by an explicit mapping\<close>

lemma string_of_nat_digits: "set (string_of_nat n) \<subseteq> set ''0123456789''"
proof (induction n rule: string_of_nat.induct)
  case (1 n)
  have digit: "''0123456789'' ! k \<in> set ''0123456789''" if "k < 10" for k
    using that by (intro nth_mem) simp
  show ?case
  proof (cases "n < 10")
    case True
    then show ?thesis
      using digit [of n] by (subst string_of_nat.simps) simp
  next
    case False
    then show ?thesis
      using "1.IH" digit [of "n mod 10"] by (subst string_of_nat.simps) simp
  qed
qed

lemma string_of_nat_not_figmaPropName: "string_of_nat i \<noteq> ''figmaPropName''"
proof
  assume "string_of_nat i = ''figmaPropName''"
  then have "CHR ''f'' \<in> set (string_of_nat i)" by simp
  with string_of_nat_digits [of i] show False by auto
qed

lemma fpv_not_object: "\<not> is_object c \<Longrightarrow> \<not> figmaPropName_value c v"
  by (auto elim: figmaPropName_value.cases)

lemma fpv_null: "\<not> figmaPropName_value JNull v"
  by (auto elim: figmaPropName_value.cases)

lemma fpv_object_iff:
  "figmaPropName_value (JObject es) v \<longleftrightarrow>
     (''figmaPropName'', v) \<in> set es \<or> (\<exists>k c. (k, c) \<in> set es \<and> figmaPropName_value c v)"
  by (subst figmaPropName_value.simps) auto

lemma fpv_array_iff:
  "figmaPropName_value (JArray xs) v \<longleftrightarrow> (\<exists>c \<in> set xs. figmaPropName_value c v)"
  by (subst figmaPropName_value.simps) auto

lemma fpv_object_Nil: "\<not> figmaPropName_value (JObject []) v"
  by (simp add: fpv_object_iff)

lemma fpv_array_Nil: "\<not> figmaPropName_value (JArray []) v"
  by (simp add: fpv_array_iff)

lemma fpv_object_Cons:
  "figmaPropName_value (JObject ((k, c) # es)) v \<longleftrightarrow>
     (k = ''figmaPropName'' \<and> v = c) \<or> figmaPropName_value c v \<or> figmaPropName_value (JObject es) v"
  unfolding fpv_object_iff [of "(k, c) # es"] fpv_object_iff [of es] by auto

lemma fpv_array_Cons:
  "figmaPropName_value (JArray (c # xs)) v \<longleftrightarrow>
     figmaPropName_value c v \<or> figmaPropName_value (JArray xs) v"
  unfolding fpv_array_iff [of "c # xs"] fpv_array_iff [of xs] by auto

lemma walk_sound:
  "(\<forall>S. getSetOfAllPropsReferencedInPropMapping obj = Inr S \<longrightarrow> S = {v. figmaPropName_value obj v})"
  "(\<forall>S. walkEntries es = Inr S \<longrightarrow> S = {v. figmaPropName_value (JObject es) v})"
  "(\<forall>S. walkElements i xs = Inr S \<longrightarrow> S = {v. figmaPropName_value (JArray xs) v})"
proof (induction obj and es and i xs
    rule: getSetOfAllPropsReferencedInPropMapping_walkEntries_walkElements.induct)
  case (9 k v es)
  show ?case
  proof (intro allI impI)
    fix S assume S: "walkEntries ((k, v) # es) = Inr S"
    show "S = {w. figmaPropName_value (JObject ((k, v) # es)) w}"
    proof (cases "is_object v")
      case True
      with S obtain inner rest where
        i: "getSetOfAllPropsReferencedInPropMapping v = Inr inner" and
        r: "walkEntries es = Inr rest" and
        Seq: "S = (if k = ''figmaPropName'' then {v} else {}) \<union> inner \<union> rest"
        by (auto split: sum.splits)
      from "9.IH"(1) True i have "inner = {w. figmaPropName_value v w}" by simp
      moreover from "9.IH"(2) [of inner] True i r
      have "rest = {w. figmaPropName_value (JObject es) w}" by simp
      ultimately show ?thesis
        unfolding Seq by (auto simp: fpv_object_Cons)
    next
      case False
      with S obtain rest where
        r: "walkEntries es = Inr rest" and
        Seq: "S = (if k = ''figmaPropName'' then {v} else {}) \<union> rest"
        by (auto split: sum.splits)
      from "9.IH"(2) [of "{}"] False r
      have "rest = {w. figmaPropName_value (JObject es) w}" by simp
      then show ?thesis
        unfolding Seq using fpv_not_object [OF False] by (auto simp: fpv_object_Cons)
    qed
  qed
next
  case (11 i v vs)
  show ?case
  proof (intro allI impI)
    fix S assume S: "walkElements i (v # vs) = Inr S"
    show "S = {w. figmaPropName_value (JArray (v # vs)) w}"
    proof (cases "is_object v")
      case True
      with S obtain inner rest where
        i: "getSetOfAllPropsReferencedInPropMapping v = Inr inner" and
        r: "walkElements (Suc i) vs = Inr rest" and
        Seq: "S = inner \<union> rest"
        by (auto simp: string_of_nat_not_figmaPropName split: sum.splits)
      from "11.IH"(1) True i have "inner = {w. figmaPropName_value v w}" by simp
      moreover from "11.IH"(2) [of inner] True i r
      have "rest = {w. figmaPropName_value (JArray vs) w}" by simp
      ultimately show ?thesis
        unfolding Seq by (auto simp: fpv_array_Cons)
    next
      case False
      with S obtain rest where
        r: "walkElements (Suc i) vs = Inr rest" and
        Seq: "S = rest"
        by (auto simp: string_of_nat_not_figmaPropName split: sum.splits)
      from "11.IH"(2) [of "{}"] False r
      have "rest = {w. figmaPropName_value (JArray vs) w}" by simp
      then show ?thesis
        unfolding Seq using fpv_not_object [OF False] by (auto simp: fpv_array_Cons)
    qed
  qed
qed (auto simp: fpv_object_Nil fpv_array_Nil fpv_not_object)


lemma walk_total:
  "obj \<noteq> JUndefined \<longrightarrow> null_free obj \<longrightarrow> (\<exists>S. getSetOfAllPropsReferencedInPropMapping obj = Inr S)"
  "null_free_entries es \<longrightarrow> (\<exists>S. walkEntries es = Inr S)"
  "null_free_elements xs \<longrightarrow> (\<exists>S. walkElements i xs = Inr S)"
proof (induction obj and es and i xs
    rule: getSetOfAllPropsReferencedInPropMapping_walkEntries_walkElements.induct)
  case (9 k v es)
  show ?case
  proof
    assume nf: "null_free_entries ((k, v) # es)"
    have "\<exists>inner. (if is_object v then getSetOfAllPropsReferencedInPropMapping v else Inr {}) = Inr inner"
      using "9.IH"(1) nf by (cases "is_object v") auto
    then obtain inner where
      i: "(if is_object v then getSetOfAllPropsReferencedInPropMapping v else Inr {}) = Inr inner" ..
    from "9.IH"(2) [OF i] nf obtain rest where "walkEntries es = Inr rest" by auto
    with i show "\<exists>S. walkEntries ((k, v) # es) = Inr S" by simp
  qed
next
  case (11 i v vs)
  show ?case
  proof
    assume nf: "null_free_elements (v # vs)"
    have "\<exists>inner. (if is_object v then getSetOfAllPropsReferencedInPropMapping v else Inr {}) = Inr inner"
      using "11.IH"(1) nf by (cases "is_object v") auto
    then obtain inner where
      i: "(if is_object v then getSetOfAllPropsReferencedInPropMapping v else Inr {}) = Inr inner" ..
    from "11.IH"(2) [OF i] nf obtain rest where "walkElements (Suc i) vs = Inr rest" by auto
    with i show "\<exists>S. walkElements i (v # vs) = Inr S" by simp
  qed
qed auto

lemma null_free_strings: "null_free_elements (map JString layers)"
  by (induction layers) auto

lemma render_null_free:
  "\<forall>t. generateExpressionValueMappingKind v = Inr t \<longrightarrow> null_free (vmk_to_js kv v)"
  "\<forall>ts. valueMappingEntries es = Inr ts \<longrightarrow> null_free_entries (valueMapping_to_js kv es)"
  "\<forall>t. generateExpressionValueMapping es' = Inr t \<longrightarrow> null_free_entries (valueMapping_to_js kv es')"
  "\<forall>t. generateExpressionFromIntrinsic i = Inr t \<longrightarrow> null_free (intrinsic_to_js kv i)"
  by (induction v and es and es' and i
      rule: generateExpressionValueMappingKind_valueMappingEntries_generateExpressionValueMapping_generateExpressionFromIntrinsic.induct)
    (auto simp: null_free_strings split: sum.splits)

lemma mappedPropsOf_null_free:
  "mappedPropsOf pm = Inr mapped \<Longrightarrow> null_free_entries (propMapping_to_js kv pm)"
proof (induction pm arbitrary: mapped)
  case Nil
  show ?case by simp
next
  case (Cons a pm)
  obtain k i where a: "a = (k, i)" by (cases a)
  from Cons.prems a obtain expr props where
    e: "generateExpressionFromIntrinsic i = Inr expr" and p: "mappedPropsOf pm = Inr props"
    by (auto split: sum.splits)
  from render_null_free(4) [of i kv] e have "null_free (intrinsic_to_js kv i)" by simp
  with Cons.IH [OF p] a show ?case by simp
qed

lemma used_set_of_rendered_mapping:
  assumes "mappedPropsOf pm = Inr mapped"
  shows "getSetOfAllPropsReferencedInPropMapping (JObject (propMapping_to_js kv pm)) =
           Inr {v. figmaPropName_value (JObject (propMapping_to_js kv pm)) v}"
proof -
  from mappedPropsOf_null_free [OF assms]
  have "null_free (JObject (propMapping_to_js kv pm))" by simp
  with walk_total(1) [of "JObject (propMapping_to_js kv pm)"]
  obtain S where S: "getSetOfAllPropsReferencedInPropMapping (JObject (propMapping_to_js kv pm)) = Inr S"
    by auto
  with walk_sound(1) [of "JObject (propMapping_to_js kv pm)"] show ?thesis by simp
qed

lemma unmappedPropsOf_filter:
  "unmappedPropsOf camel used defs =
     map (\<lambda>(n, d). the (generateSinglePropMappingFromFigmaProp camel n d))
       (filter (\<lambda>(n, d). JString n \<notin> used \<and> supported_type (prop_type d)) defs)"
  by (simp add: unmappedPropsOf_eq autoPropsOf_eq case_prod_unfold conj_commute)



text \<open>
  C10, as the code has it. For a mapping whose intrinsics are all rendered,
  \<^verbatim>\<open>generatePropsFromMapping\<close> compares the raw key of every component property, with its
  node-id suffix if it has one, against the set that
  \<^verbatim>\<open>getSetOfAllPropsReferencedInPropMapping\<close> collects, and normalises no name for it: a
  property of a supported type is among the suggested properties exactly when its raw key is
  not in that set, a property of another type never is, and the text returned has one
  suggestion for each suggested property, in their order. So a property of a supported type
  whose normalised name is referenced, and whose raw key is not, is still suggested.
\<close>

theorem unmapped_detection_verbatim:
  "mappedPropsOf pm = Inr mapped \<Longrightarrow> componentPropertyDefinitions c = Some defs \<Longrightarrow>
   (let used = {v. figmaPropName_value (JObject (propMapping_to_js kv pm)) v};
        suggested = filter (\<lambda>(n, d). JString n \<notin> used \<and> supported_type (prop_type d)) defs
    in getSetOfAllPropsReferencedInPropMapping (JObject (propMapping_to_js kv pm)) = Inr used \<and>
       generatePropsFromMapping camel kv c pm =
         Inr (mappingPropsBlock mapped
           (map (\<lambda>(n, d). the (generateSinglePropMappingFromFigmaProp camel n d)) suggested)) \<and>
       (\<forall>n d. (n, d) \<in> set defs \<and> supported_type (prop_type d) \<longrightarrow>
          ((n, d) \<in> set suggested \<longleftrightarrow> JString n \<notin> used)) \<and>
       (\<forall>n d. (n, d) \<in> set defs \<and> \<not> supported_type (prop_type d) \<longrightarrow> (n, d) \<notin> set suggested) \<and>
       (\<forall>n d. (n, d) \<in> set defs \<and> supported_type (prop_type d) \<and> JString n \<notin> used \<and>
            JString (normalizePropName n) \<in> used \<longrightarrow>
          (n, d) \<in> set suggested \<and>
          the (generateSinglePropMappingFromFigmaProp camel n d) \<in>
            set (map (\<lambda>(n, d). the (generateSinglePropMappingFromFigmaProp camel n d)) suggested)))"
proof -
  assume m: "mappedPropsOf pm = Inr mapped" and d: "componentPropertyDefinitions c = Some defs"
  let ?used = "{v. figmaPropName_value (JObject (propMapping_to_js kv pm)) v}"
  let ?suggested = "filter (\<lambda>(n, d). JString n \<notin> ?used \<and> supported_type (prop_type d)) defs"
  have g: "getSetOfAllPropsReferencedInPropMapping (JObject (propMapping_to_js kv pm)) = Inr ?used"
    using m by (rule used_set_of_rendered_mapping)
  have p: "generatePropsFromMapping camel kv c pm =
      Inr (mappingPropsBlock mapped
        (map (\<lambda>(n, d). the (generateSinglePropMappingFromFigmaProp camel n d)) ?suggested))"
    unfolding generatePropsFromMapping_def m g d
    by (simp only: sum.case option.case unmappedPropsOf_filter)
  have mem: "\<And>n d. (n, d) \<in> set ?suggested \<longleftrightarrow>
      (n, d) \<in> set defs \<and> JString n \<notin> ?used \<and> supported_type (prop_type d)"
    by auto
  have img: "\<And>n d. (n, d) \<in> set ?suggested \<Longrightarrow>
      the (generateSinglePropMappingFromFigmaProp camel n d) \<in>
        set (map (\<lambda>(n, d). the (generateSinglePropMappingFromFigmaProp camel n d)) ?suggested)"
    by force
  show ?thesis
    unfolding Let_def
    apply (intro conjI allI impI)
        apply (rule g)
       apply (rule p)
      apply (simp only: mem, blast)
     apply (simp only: mem, blast)
    apply (simp only: mem, blast)
    apply (rule img, simp only: mem, blast)
    done
qed

theorem unmapped_detection_verbatim_witness:
  \<open>mappedPropsOf [(''label'', FigmaString ''Text'')] = Inr [''"label": figma.string("Text")''] \<and>
   getSetOfAllPropsReferencedInPropMapping
     (JObject (propMapping_to_js sample_kind_value [(''label'', FigmaString ''Text'')])) =
     Inr {JString ''Text''} \<and>
   normalizePropName ''Text#1:2'' = ''Text'' \<and>
   generatePropsFromMapping toLowerCase sample_kind_value
     \<lparr>normalizedName = ''MyButton'', figmaNodeUrl = ''url'',
      componentPropertyDefinitions = Some
        [(''Text#1:2'', \<lparr>prop_type = TEXT, variantOptions = None\<rparr>),
         (''Count'', \<lparr>prop_type = OTHER_TYPE ''NUMBER'', variantOptions = None\<rparr>)]\<rparr>
     [(''label'', FigmaString ''Text'')] =
     Inr (mappingPropsBlock [''"label": figma.string("Text")''] [''"text": figma.string('Text')''])\<close>
proof -
  let ?pm = "[(''label'', FigmaString ''Text'')]"
  let ?defs = "[(''Text#1:2'', \<lparr>prop_type = TEXT, variantOptions = None\<rparr>),
         (''Count'', \<lparr>prop_type = OTHER_TYPE ''NUMBER'', variantOptions = None\<rparr>)]"
  let ?c = "\<lparr>normalizedName = ''MyButton'', figmaNodeUrl = ''url'',
      componentPropertyDefinitions = Some ?defs\<rparr>"
  have m: \<open>mappedPropsOf ?pm = Inr [''"label": figma.string("Text")'']\<close>
    by (simp add: quoted_def)
  have g: "getSetOfAllPropsReferencedInPropMapping (JObject (propMapping_to_js sample_kind_value ?pm)) =
      Inr {JString ''Text''}"
    by simp
  have n: "normalizePropName ''Text#1:2'' = ''Text''"
    by (simp add: is_id_char_def is_digit_def)
  have d: "componentPropertyDefinitions ?c = Some ?defs"
    by simp
  note T = unmapped_detection_verbatim [of ?pm _ ?c ?defs sample_kind_value toLowerCase,
      OF m d, unfolded Let_def]
  from T have g': "getSetOfAllPropsReferencedInPropMapping (JObject (propMapping_to_js sample_kind_value ?pm)) =
      Inr {v. figmaPropName_value (JObject (propMapping_to_js sample_kind_value ?pm)) v}"
    by (rule conjunct1)
  from T have p: \<open>generatePropsFromMapping toLowerCase sample_kind_value ?c ?pm =
      Inr (mappingPropsBlock [''"label": figma.string("Text")'']
        (map (\<lambda>(n, d). the (generateSinglePropMappingFromFigmaProp toLowerCase n d))
          (filter (\<lambda>(n, d). JString n \<notin> {v. figmaPropName_value (JObject (propMapping_to_js sample_kind_value ?pm)) v} \<and>
              supported_type (prop_type d)) ?defs)))\<close>
    by (rule conjunct1 [OF conjunct2])
  from g g' have u: "{v. figmaPropName_value (JObject (propMapping_to_js sample_kind_value ?pm)) v} = {JString ''Text''}"
    by (metis sum.inject(2))
  have s: \<open>map (\<lambda>(n, d). the (generateSinglePropMappingFromFigmaProp toLowerCase n d))
          (filter (\<lambda>(n, d). JString n \<notin> {JString ''Text''} \<and> supported_type (prop_type d)) ?defs) =
        [''"text": figma.string('Text')'']\<close>
    by (simp add: supported_type_def generateSinglePropMappingFromFigmaProp_def generateCodePropName_def
        toLowerCase_def quoted_def char_class_defs)
  from p have \<open>generatePropsFromMapping toLowerCase sample_kind_value ?c ?pm =
      Inr (mappingPropsBlock [''"label": figma.string("Text")''] [''"text": figma.string('Text')''])\<close>
    unfolding u s .
  with m g n show ?thesis by blast
qed

text \<open>
  The claim of C10 fails for a property of an unsupported type: its raw key is not among the
  referenced names, and nothing is suggested for it.
\<close>

theorem unsupported_property_not_suggested:
  \<open>getSetOfAllPropsReferencedInPropMapping
     (JObject (propMapping_to_js sample_kind_value [(''label'', FigmaString ''Text'')])) =
     Inr {JString ''Text''} \<and>
   JString ''Count'' \<notin> {JString ''Text''} \<and>
   unmappedPropsOf toLowerCase {JString ''Text''}
     [(''Count'', \<lparr>prop_type = OTHER_TYPE ''NUMBER'', variantOptions = None\<rparr>)] = [] \<and>
   generatePropsFromMapping toLowerCase sample_kind_value
     \<lparr>normalizedName = ''MyButton'', figmaNodeUrl = ''url'',
      componentPropertyDefinitions = Some
        [(''Count'', \<lparr>prop_type = OTHER_TYPE ''NUMBER'', variantOptions = None\<rparr>)]\<rparr>
     [(''label'', FigmaString ''Text'')] =
     Inr (mappingPropsBlock [''"label": figma.string("Text")''] [])\<close>
  by (simp add: generatePropsFromMapping_def generateSinglePropMappingFromFigmaProp_def quoted_def)

section \<open>File emission\<close>

text \<open>
  C1, as the code has it. When the props cannot be rendered or the formatter rejects the
  text, the call throws and the file system is as before. Otherwise: if the destination
  path exists, the file system is as before and the response has no created file and one
  message, of level ERROR, whose text contains the path; if it does not exist, the directory
  of the path is made, the formatted text is written to the path, and when both calls
  succeed the response has the path as its one created file and no message.
\<close>

theorem existence_guard:
  "(\<forall>e. formattedOf env payload = Inl e \<longrightarrow> createReactCodeConnect env fs payload = (fs, Inl e)) \<and>
   (\<forall>formatted. formattedOf env payload = Inr formatted \<longrightarrow>
      (fs_existsSync env fs (filePathOf env payload) \<longrightarrow>
         fst (createReactCodeConnect env fs payload) = fs \<and>
         (\<exists>m. snd (createReactCodeConnect env fs payload) =
                Inr \<lparr>createdFiles = [], messages = [\<lparr>message = m, level = ERROR\<rparr>]\<rparr> \<and>
              sublist (filePathOf env payload) m)) \<and>
      (\<not> fs_existsSync env fs (filePathOf env payload) \<longrightarrow>
         (\<forall>fs1 fs2.
            fs_mkdirSync_recursive env fs (path_dirname env (filePathOf env payload)) = Some fs1 \<and>
            fs_writeFileSync env fs1 (filePathOf env payload) formatted = Some fs2 \<longrightarrow>
            createReactCodeConnect env fs payload =
              (fs2, Inr \<lparr>createdFiles = [\<lparr>filePath = filePathOf env payload\<rparr>], messages = []\<rparr>))))"
proof (intro conjI allI impI)
  fix e assume "formattedOf env payload = Inl e"
  then show "createReactCodeConnect env fs payload = (fs, Inl e)"
    by (simp add: createReactCodeConnect_def)
next
  fix formatted
  assume "formattedOf env payload = Inr formatted" "fs_existsSync env fs (filePathOf env payload)"
  then show "fst (createReactCodeConnect env fs payload) = fs"
    by (simp add: createReactCodeConnect_def)
next
  fix formatted
  assume a: "formattedOf env payload = Inr formatted" "fs_existsSync env fs (filePathOf env payload)"
  have "sublist (filePathOf env payload)
      (''File '' @ filePathOf env payload @ '' already exists, skipping creation'')"
    unfolding sublist_def by blast
  with a show "\<exists>m. snd (createReactCodeConnect env fs payload) =
        Inr \<lparr>createdFiles = [], messages = [\<lparr>message = m, level = ERROR\<rparr>]\<rparr> \<and>
      sublist (filePathOf env payload) m"
    by (simp add: createReactCodeConnect_def)
next
  fix formatted fs1 fs2
  assume "formattedOf env payload = Inr formatted"
    "\<not> fs_existsSync env fs (filePathOf env payload)"
    "fs_mkdirSync_recursive env fs (path_dirname env (filePathOf env payload)) = Some fs1 \<and>
     fs_writeFileSync env fs1 (filePathOf env payload) formatted = Some fs2"
  then show "createReactCodeConnect env fs payload =
      (fs2, Inr \<lparr>createdFiles = [\<lparr>filePath = filePathOf env payload\<rparr>], messages = []\<rparr>)"
    by (simp add: createReactCodeConnect_def)
qed

lemma button_formatted: "\<exists>t. formattedOf sample_env button_payload = Inr t"
  by (simp add: formattedOf_def codeConnectOf_def propsOf_def hasPropMapping_def
      sample_env_def button_payload_def)

lemma button_filePath: "filePathOf sample_env button_payload = ''out/MyButton.figma.tsx''"
  by (simp add: filePathOf_def sourceFilenameOf_def truthy_def sample_defs)

theorem existence_guard_witness:
  "createReactCodeConnect sample_env ([], [(''out/MyButton.figma.tsx'', ''old'')]) button_payload =
     (([], [(''out/MyButton.figma.tsx'', ''old'')]),
      Inr \<lparr>createdFiles = [],
           messages = [\<lparr>message = ''File out/MyButton.figma.tsx already exists, skipping creation'',
                        level = ERROR\<rparr>]\<rparr>) \<and>
   createReactCodeConnect sample_env ([], []) button_payload =
     (([''out''], [(''out/MyButton.figma.tsx'', projr (formattedOf sample_env button_payload))]),
      Inr \<lparr>createdFiles = [\<lparr>filePath = ''out/MyButton.figma.tsx''\<rparr>], messages = []\<rparr>)"
proof -
  let ?old = "([], [(''out/MyButton.figma.tsx'', ''old'')]) :: sample_fs"
  let ?new = "([], []) :: sample_fs"
  from button_formatted obtain t where t: "formattedOf sample_env button_payload = Inr t" ..
  have ex: "fs_existsSync sample_env ?old (filePathOf sample_env button_payload)"
    by (simp add: button_filePath) (simp add: sample_env_def)
  have nex: "\<not> fs_existsSync sample_env ?new (filePathOf sample_env button_payload)"
    by (simp add: sample_env_def)
  have mk: "fs_mkdirSync_recursive sample_env ?new (path_dirname sample_env (filePathOf sample_env button_payload)) =
      Some ([''out''], [])"
    by (simp add: button_filePath) (simp add: sample_env_def sample_dirname_def)
  have wr: "fs_writeFileSync sample_env ([''out''], []) (filePathOf sample_env button_payload) t =
      Some ([''out''], [(''out/MyButton.figma.tsx'', t)])"
    by (simp add: button_filePath) (simp add: sample_env_def)
  from existence_guard [of sample_env button_payload ?old] t ex
  have 1: "fst (createReactCodeConnect sample_env ?old button_payload) = ?old"
    by blast
  have 2: "snd (createReactCodeConnect sample_env ?old button_payload) =
      Inr \<lparr>createdFiles = [],
        messages = [\<lparr>message = ''File '' @ filePathOf sample_env button_payload @ '' already exists, skipping creation'',
                     level = ERROR\<rparr>]\<rparr>"
    using t ex by (simp add: createReactCodeConnect_def)
  from 1 2 have a: "createReactCodeConnect sample_env ?old button_payload =
     (?old,
      Inr \<lparr>createdFiles = [],
           messages = [\<lparr>message = ''File out/MyButton.figma.tsx already exists, skipping creation'',
                        level = ERROR\<rparr>]\<rparr>)"
    by (simp add: prod_eq_iff button_filePath)
  from existence_guard [of sample_env button_payload ?new] t nex mk wr
  have "createReactCodeConnect sample_env ?new button_payload =
     (([''out''], [(''out/MyButton.figma.tsx'', t)]),
      Inr \<lparr>createdFiles = [\<lparr>filePath = filePathOf sample_env button_payload\<rparr>], messages = []\<rparr>)"
    by blast
  with a t show ?thesis by (simp add: button_filePath)
qed

lemma unrendered_mapping_throws:
  "hasPropMapping payload \<Longrightarrow> mappedPropsOf (the (propMapping payload)) = Inl e \<Longrightarrow>
     createReactCodeConnect env fs payload = (fs, Inl e)"
  by (simp add: createReactCodeConnect_def formattedOf_def codeConnectOf_def propsOf_def
      generatePropsFromMapping_def)

text \<open>
  The claim of C1 fails for a payload whose mapping has an intrinsic of an unsupported kind:
  the destination exists, and the call throws instead of answering with a message. By the
  lemma above this is so in every environment.
\<close>

theorem unsupported_mapping_throws_before_guard:
  "fs_existsSync sample_env ([], [(''out/MyButton.figma.tsx'', ''old'')])
     (filePathOf sample_env
        (button_payload\<lparr>propMapping := Some [(''items'', FigmaOther ''nested-props'' (JObject []))]\<rparr>)) \<and>
   createReactCodeConnect sample_env ([], [(''out/MyButton.figma.tsx'', ''old'')])
     (button_payload\<lparr>propMapping := Some [(''items'', FigmaOther ''nested-props'' (JObject []))]\<rparr>) =
     (([], [(''out/MyButton.figma.tsx'', ''old'')]), Inl (UnsupportedIntrinsic (K_Other ''nested-props'')))"
  by (simp add: emission_defs generatePropsFromMapping_def sample_defs)

lemma stripScriptExtension_cases:
  "stripScriptExtension (b @ ''.jsx'') = b"
  "stripScriptExtension (b @ ''.tsx'') = b"
  "\<not> suffix ''.jsx'' s \<Longrightarrow> \<not> suffix ''.tsx'' s \<Longrightarrow> stripScriptExtension s = s"
  by (simp_all add: stripScriptExtension_def suffix_def)

text \<open>
  C8, as the code has it. With a source file path (present and not empty) the import path is the relative path
  from the directory of the destination file to the source file, with every separator
  replaced by \<^verbatim>\<open>/\<close>, with \<^verbatim>\<open>./\<close> in front unless it starts with a dot, and with a trailing
  \<^verbatim>\<open>.jsx\<close> or \<^verbatim>\<open>.tsx\<close> removed; every other ending is kept. Without one it is \<^verbatim>\<open>./\<close> followed by the normalised name of the
  component.
\<close>

theorem import_path:
  "(truthy src \<longrightarrow>
      getImportsPath env ccPath src nm =
        stripScriptExtension
          (let p = map (\<lambda>c. if c = path_sep env then CHR ''/'' else c)
                     (path_relative env (path_dirname env ccPath) (the src))
           in if prefix ''.'' p then p else ''./'' @ p)) \<and>
   (\<not> truthy src \<longrightarrow> getImportsPath env ccPath src nm = ''./'' @ nm) \<and>
   importsPathOf env payload =
     getImportsPath env (filePathOf env payload) (sourceFilepath payload) (normalizedName (component payload)) \<and>
   (\<forall>b. stripScriptExtension (b @ ''.jsx'') = b \<and> stripScriptExtension (b @ ''.tsx'') = b) \<and>
   (\<forall>s. \<not> suffix ''.jsx'' s \<and> \<not> suffix ''.tsx'' s \<longrightarrow> stripScriptExtension s = s)"
  by (simp add: getImportsPath_def formatImportPath_def Let_def importsPathOf_def
      stripScriptExtension_cases)

theorem import_path_witness:
  "importsPathOf sample_env
     (button_payload\<lparr>sourceFilepath := Some ''src/components/Button.tsx''\<rparr>) = ''../src/components/Button'' \<and>
   importsPathOf sample_env button_payload = ''./MyButton'' \<and>
   formatImportPath (CHR 0x5C) (''ui'' @ [CHR 0x5C] @ ''Button.jsx'') = ''./ui/Button''"
  using import_path [of "Some ''src/components/Button.tsx''" sample_env "''out/Button.figma.tsx''" "''MyButton''"
      "button_payload\<lparr>sourceFilepath := Some ''src/components/Button.tsx''\<rparr>"]
    import_path [of None sample_env "''out/MyButton.figma.tsx''" "''MyButton''" button_payload]
  by (simp add: emission_defs sample_defs formatImportPath_def stripScriptExtension_def suffix_def)

text \<open>
  The claim of C8 fails for a source file with another script extension: \<^verbatim>\<open>.ts\<close> and \<^verbatim>\<open>.js\<close>
  stay in the import path.
\<close>

theorem other_extension_kept:
  "formatImportPath (CHR ''/'') ''../src/components/Button.ts'' = ''../src/components/Button.ts'' \<and>
   formatImportPath (CHR ''/'') ''../src/components/Button.js'' = ''../src/components/Button.js'' \<and>
   importsPathOf sample_env (button_payload\<lparr>sourceFilepath := Some ''src/components/Button.ts''\<rparr>) =
     ''../src/components/Button.ts''"
  by (simp add: emission_defs sample_defs formatImportPath_def stripScriptExtension_def suffix_def)

text \<open>
  C9, as the code has it. When a source file path and a source export are both given: the
  default export is imported under the name derived from the base file name, a named
  export under its own name. When either is missing the name is the normalised name of the
  component. The import is a default import exactly when the source export is
  \<^verbatim>\<open>default\<close>, and a named import otherwise; the template has that statement on its second
  line.
\<close>

theorem import_name:
  "(truthy (sourceFilepath payload) \<and> truthy (sourceExport payload) \<and>
      sourceExport payload = Some ''default'' \<longrightarrow>
      importNameOf env payload = normalizeComponentName env (sourceFilenameOf env payload)) \<and>
   (truthy (sourceFilepath payload) \<and> truthy (sourceExport payload) \<and>
      sourceExport payload \<noteq> Some ''default'' \<longrightarrow>
      importNameOf env payload = the (sourceExport payload)) \<and>
   (\<not> (truthy (sourceFilepath payload) \<and> truthy (sourceExport payload)) \<longrightarrow>
      importNameOf env payload = normalizedName (component payload)) \<and>
   (sourceExport payload = Some ''default'' \<longrightarrow>
      importStatementOf env payload =
        ''import '' @ importNameOf env payload @ '' from '' @ [CHR 0x27] @ importsPathOf env payload @ [CHR 0x27]) \<and>
   (sourceExport payload \<noteq> Some ''default'' \<longrightarrow>
      importStatementOf env payload =
        ''import { '' @ importNameOf env payload @ '' } from '' @ [CHR 0x27] @ importsPathOf env payload @ [CHR 0x27]) \<and>
   (\<forall>code. codeConnectOf env payload = Inr code \<longrightarrow>
      sublist (CHR ''\<newline>'' # importStatementOf env payload @ [CHR ''\<newline>'']) code)"
proof -
  have tmpl: "sublist (CHR ''\<newline>'' # importStatementOf env payload @ [CHR ''\<newline>'']) code"
    if "codeConnectOf env payload = Inr code" for code
  proof -
    from that obtain props where
      "code = (''\<newline>import React from '' @ [CHR 0x27] @ ''react'' @ [CHR 0x27]) @
         (CHR ''\<newline>'' # importStatementOf env payload @ [CHR ''\<newline>'']) @
         (''import figma from '' @ [CHR 0x27] @ ''@figma/code-connect'' @ [CHR 0x27] @ ''\<newline>\<newline>'' @
          docComment (hasPropMapping payload) @
          ''\<newline>\<newline>figma.connect('' @ importNameOf env payload @ '', '' @ [CHR 0x22] @
          figmaNodeUrl (component payload) @ [CHR 0x22] @ '', {\<newline>  props: '' @ props @
          '',\<newline>  example: (props) => <'' @ importNameOf env payload @ '' />\<newline>})\<newline>'')"
      by (auto simp: codeConnectOf_def split: sum.splits)
    then show ?thesis
      unfolding sublist_def by blast
  qed
  have name: "(truthy (sourceFilepath payload) \<and> truthy (sourceExport payload) \<and>
        sourceExport payload = Some ''default'' \<longrightarrow>
        importNameOf env payload = normalizeComponentName env (sourceFilenameOf env payload)) \<and>
     (truthy (sourceFilepath payload) \<and> truthy (sourceExport payload) \<and>
        sourceExport payload \<noteq> Some ''default'' \<longrightarrow>
        importNameOf env payload = the (sourceExport payload)) \<and>
     (\<not> (truthy (sourceFilepath payload) \<and> truthy (sourceExport payload)) \<longrightarrow>
        importNameOf env payload = normalizedName (component payload))"
    by (auto simp: importNameOf_def)
  have stmt: "(sourceExport payload = Some ''default'' \<longrightarrow>
        importStatementOf env payload =
          ''import '' @ importNameOf env payload @ '' from '' @ [CHR 0x27] @ importsPathOf env payload @ [CHR 0x27]) \<and>
     (sourceExport payload \<noteq> Some ''default'' \<longrightarrow>
        importStatementOf env payload =
          ''import { '' @ importNameOf env payload @ '' } from '' @ [CHR 0x27] @ importsPathOf env payload @ [CHR 0x27])"
    by (simp add: importStatementOf_def)
  from name stmt tmpl show ?thesis by blast
qed

theorem import_name_witness:
  "importNameOf sample_env
     (button_payload\<lparr>sourceFilepath := Some ''src/components/Button.tsx'', sourceExport := Some ''default''\<rparr>) =
     ''Button'' \<and>
   importStatementOf sample_env
     (button_payload\<lparr>sourceFilepath := Some ''src/components/Button.tsx'', sourceExport := Some ''default''\<rparr>) =
     ''import Button from '' @ [CHR 0x27] @ ''../src/components/Button'' @ [CHR 0x27] \<and>
   importNameOf sample_env
     (button_payload\<lparr>sourceFilepath := Some ''src/components/Button.tsx'', sourceExport := Some ''PrimaryButton''\<rparr>) =
     ''PrimaryButton'' \<and>
   importStatementOf sample_env
     (button_payload\<lparr>sourceFilepath := Some ''src/components/Button.tsx'', sourceExport := Some ''PrimaryButton''\<rparr>) =
     ''import { PrimaryButton } from '' @ [CHR 0x27] @ ''../src/components/Button'' @ [CHR 0x27] \<and>
   importNameOf sample_env button_payload = ''MyButton''"
  using import_name [of "button_payload\<lparr>sourceFilepath := Some ''src/components/Button.tsx'', sourceExport := Some ''default''\<rparr>" sample_env]
    import_name [of "button_payload\<lparr>sourceFilepath := Some ''src/components/Button.tsx'', sourceExport := Some ''PrimaryButton''\<rparr>" sample_env]
    import_name [of button_payload sample_env]
  by (simp add: emission_defs sample_defs formatImportPath_def stripScriptExtension_def suffix_def)

text \<open>
  The claim of C9 fails for a named export with no source file path: the name imported is
  the normalised name of the component, not the name of the export.
\<close>

theorem named_export_without_source_file:
  "sourceExport (button_payload\<lparr>sourceExport := Some ''PrimaryButton''\<rparr>) = Some ''PrimaryButton'' \<and>
   importNameOf sample_env (button_payload\<lparr>sourceExport := Some ''PrimaryButton''\<rparr>) = ''MyButton'' \<and>
   importNameOf sample_env (button_payload\<lparr>sourceExport := Some ''PrimaryButton''\<rparr>) \<noteq> ''PrimaryButton''"
  by (simp add: importNameOf_def truthy_def button_payload_def button_component_def)

end
